theory Spec2Isabelle
  imports Main "HOL-Library.Sublist"
begin

section \<open>Python strings and dictionaries\<close>

text \<open>
  A Python \<open>str\<close> is modelled as a \<open>string\<close>, one \<open>char\<close> per code point, so only
  code points up to 255 are covered and \<open>length\<close> is Python's \<open>len\<close>. The operations
  below are the ones \<open>src/main.py\<close> applies to strings: \<open>in\<close>, \<open>startswith\<close>,
  \<open>replace\<close>, \<open>strip\<close>, \<open>split\<close>, \<open>join\<close>, \<open>str\<close> of a number and \<open>repr\<close> of a
  string or of a list of strings.
\<close>

definition newline :: char where
  "newline = CHR 0x0A"

definition backslash :: char where
  "backslash = CHR 0x5C"

definition squote :: char where
  "squote = CHR 0x27"

definition dquote :: char where
  "dquote = CHR 0x22"

text \<open>\<open>sub in s\<close>: \<open>sub\<close> occurs in \<open>s\<close> as a contiguous run.\<close>

fun py_in :: "string \<Rightarrow> string \<Rightarrow> bool" where
  "py_in sub [] = (sub = [])"
| "py_in sub (c # cs) = (prefix sub (c # cs) \<or> py_in sub cs)"

definition startswith :: "string \<Rightarrow> string \<Rightarrow> bool" where
  "startswith s p = prefix p s"

text \<open>
  \<open>s.replace(old, new)\<close>: every occurrence of \<open>old\<close>, found from the left and not
  overlapping, becomes \<open>new\<close>. With an empty \<open>old\<close> Python puts \<open>new\<close> before every
  character and at the end.
\<close>

function py_replace :: "string \<Rightarrow> string \<Rightarrow> string \<Rightarrow> string" where
  "py_replace old new s =
     (if old = [] then new @ concat (map (\<lambda>c. c # new) s)
      else if s = [] then []
      else if prefix old s then new @ py_replace old new (drop (length old) s)
      else hd s # py_replace old new (tl s))"
  by pat_completeness auto
termination
  by (relation "measure (\<lambda>(old, new, s). length s)") (auto simp: neq_Nil_conv)

declare py_replace.simps [simp del]

text \<open>
  \<open>str.isspace\<close> on one character, for the code points up to 255: tab, line feed,
  vertical tab, form feed, carriage return, the separators 28 to 31, space, next line
  (133) and no-break space (160).
\<close>

definition py_isspace :: "char \<Rightarrow> bool" where
  "py_isspace c = ((of_char c :: nat) \<in> {9, 10, 11, 12, 13, 28, 29, 30, 31, 32, 133, 160})"

definition py_strip :: "string \<Rightarrow> string" where
  "py_strip s = rev (dropWhile py_isspace (rev (dropWhile py_isspace s)))"

text \<open>
  \<open>s.split(sep)\<close> for a non-empty separator: the pieces between the occurrences of
  \<open>sep\<close>, found from the left; \<open>acc\<close> holds the current piece, reversed. The source
  only splits on the constant \<open>"\n- "\<close>.
\<close>

function split_from :: "string \<Rightarrow> string \<Rightarrow> string \<Rightarrow> string list" where
  "split_from sep acc s =
     (if s = [] then [rev acc]
      else if sep \<noteq> [] \<and> prefix sep s then rev acc # split_from sep [] (drop (length sep) s)
      else split_from sep (hd s # acc) (tl s))"
  by pat_completeness auto
termination
  by (relation "measure (\<lambda>(sep, acc, s). length s)") (auto simp: neq_Nil_conv)

declare split_from.simps [simp del]

definition py_split :: "string \<Rightarrow> string \<Rightarrow> string list" where
  "py_split s sep = split_from sep [] s"

text \<open>\<open>sep.join(xs)\<close>.\<close>

fun py_join :: "string \<Rightarrow> string list \<Rightarrow> string" where
  "py_join sep [] = []"
| "py_join sep [x] = x"
| "py_join sep (x # y # ys) = x @ sep @ py_join sep (y # ys)"

text \<open>\<open>str(n)\<close> for a number that is not negative: its decimal digits.\<close>

definition digit_char :: "nat \<Rightarrow> char" where
  "digit_char d = ''0123456789'' ! d"

function str_nat :: "nat \<Rightarrow> string" where
  "str_nat n = (if n < 10 then [digit_char n] else str_nat (n div 10) @ [digit_char (n mod 10)])"
  by pat_completeness auto
termination
  by (relation "measure id") auto

declare str_nat.simps [simp del]

text \<open>
  \<open>repr(s)\<close> of a string: single quotes unless the string has a single quote and no
  double quote; the quote and the backslash are escaped, tab, line feed and carriage
  return are written \<open>\t\<close>, \<open>\n\<close>, \<open>\r\<close>, and every other character that is not
  printable is written \<open>\xhh\<close>. Up to code point 255 the characters that are not
  printable are 0 to 31, 127 to 160 and 173.
\<close>

definition hex_digit :: "nat \<Rightarrow> char" where
  "hex_digit d = ''0123456789abcdef'' ! d"

definition py_isprintable :: "char \<Rightarrow> bool" where
  "py_isprintable c =
     (let n = (of_char c :: nat) in (32 \<le> n \<and> n < 127) \<or> (161 \<le> n \<and> n \<noteq> 173))"

definition repr_char :: "char \<Rightarrow> char \<Rightarrow> string" where
  "repr_char q c =
     (if c = q \<or> c = backslash then [backslash, c]
      else if c = CHR 0x09 then [backslash, CHR ''t'']
      else if c = newline then [backslash, CHR ''n'']
      else if c = CHR 0x0D then [backslash, CHR ''r'']
      else if \<not> py_isprintable c
        then [backslash, CHR ''x'', hex_digit (of_char c div 16), hex_digit (of_char c mod 16)]
      else [c])"

definition repr_quote :: "string \<Rightarrow> char" where
  "repr_quote s = (if squote \<in> set s \<and> dquote \<notin> set s then dquote else squote)"

definition py_repr :: "string \<Rightarrow> string" where
  "py_repr s = repr_quote s # concat (map (repr_char (repr_quote s)) s) @ [repr_quote s]"

definition py_repr_list :: "string list \<Rightarrow> string" where
  "py_repr_list xs = ''['' @ py_join '', '' (map py_repr xs) @ '']''"

text \<open>
  A dictionary with string keys is an association list read with \<open>map_of\<close>: the
  first entry of a key is its value, and the keys of the dictionary are the keys of
  the list in the order of their first entry. \<open>d[k]\<close> raises \<open>KeyError\<close> on a key that
  is absent. The exceptions are values; \<open>TypeError\<close> and \<open>AttributeError\<close> stand
  without their message, which none of the functions below reads.
\<close>

datatype py_error = KeyError string | TypeError | AttributeError

definition getitem :: "(string \<times> 'v) list \<Rightarrow> string \<Rightarrow> py_error + 'v" where
  "getitem d k = (case map_of d k of None \<Rightarrow> Inl (KeyError k) | Some v \<Rightarrow> Inr v)"

definition dict_keys :: "(string \<times> 'v) list \<Rightarrow> string list" where
  "dict_keys d = rev (remdups (rev (map fst d)))"

section \<open>Parsed JSON values\<close>

text \<open>
  What \<open>JsonOutputParser\<close> returns: any JSON value, \<open>None\<close> for \<open>null\<close>, a dictionary
  for an object. A number stands as an integer: the source tests a number for truth
  and otherwise applies to it only operations that raise on every number, so a float
  is covered by an integer of the same truth value.
\<close>

datatype json = JNull | JBool bool | JNum int | JStr string | JArr "json list"
  | JObj "(string \<times> json) list"

text \<open>Python's truth value of a parsed JSON value.\<close>

fun py_truthy :: "json \<Rightarrow> bool" where
  "py_truthy JNull = False"
| "py_truthy (JBool b) = b"
| "py_truthy (JNum n) = (n \<noteq> 0)"
| "py_truthy (JStr s) = (s \<noteq> [])"
| "py_truthy (JArr xs) = (xs \<noteq> [])"
| "py_truthy (JObj kvs) = (kvs \<noteq> [])"

text \<open>
  \<open>v[k]\<close> with a string \<open>k\<close>: the lookup in a dictionary; \<open>TypeError\<close> on a string or a
  list (their indices must be integers) and on \<open>None\<close>, a truth value or a number
  (they cannot be subscripted).
\<close>

fun subscript :: "json \<Rightarrow> string \<Rightarrow> py_error + json" where
  "subscript (JObj d) k = getitem d k"
| "subscript v k = Inl TypeError"

text \<open>\<open>len(v)\<close>: defined on strings, lists and dictionaries, \<open>TypeError\<close> otherwise.\<close>

fun py_len :: "json \<Rightarrow> py_error + nat" where
  "py_len (JStr s) = Inr (length s)"
| "py_len (JArr xs) = Inr (length xs)"
| "py_len (JObj d) = Inr (length (dict_keys d))"
| "py_len v = Inl TypeError"

text \<open>
  The items that \<open>for h in v\<close> yields: the characters of a string, as strings, the
  items of a list, the keys of a dictionary; \<open>TypeError\<close> otherwise.
\<close>

fun py_iter :: "json \<Rightarrow> py_error + json list" where
  "py_iter (JStr s) = Inr (map (\<lambda>c. JStr [c]) s)"
| "py_iter (JArr xs) = Inr xs"
| "py_iter (JObj d) = Inr (map JStr (dict_keys d))"
| "py_iter v = Inl TypeError"

text \<open>
  A list comprehension \<open>[h for h in items if keep(h)]\<close> whose condition calls
  \<open>h.startswith\<close>: the strings among the items that the condition keeps, in their
  order. An item that is not a string has no such method, and the call raises
  \<open>AttributeError\<close>.
\<close>

fun items_where :: "(string \<Rightarrow> bool) \<Rightarrow> json list \<Rightarrow> py_error + string list" where
  "items_where keep [] = Inr []"
| "items_where keep (JStr s # rest) =
     (case items_where keep rest of
        Inl e \<Rightarrow> Inl e
      | Inr kept \<Rightarrow> Inr (if keep s then s # kept else kept))"
| "items_where keep (v # rest) = Inl AttributeError"

section \<open>The validator of the retry workflow\<close>

text \<open>
  \<open>comprehensive_content_validator\<close> (src/main.py, lines 344 to 361) reads the parsed
  answer of the model. The parser of the content node is a \<open>JsonOutputParser()\<close>
  without a schema (line 403), so the candidate is any JSON value. The validator
  catches \<open>KeyError\<close> only: a value on which a subscript, \<open>len\<close> or \<open>startswith\<close>
  raises another exception makes the validator raise it.

  The eight checks, one per \<open>if\<close> of the source: each gives the issues it appends, or
  the exception that \<open>len\<close> or the list comprehension raises.
\<close>

definition check_caption :: "json \<Rightarrow> py_error + string list" where
  "check_caption v =
     (case py_len v of
        Inl e \<Rightarrow> Inl e
      | Inr n \<Rightarrow> Inr (if n > 2200 then [''Instagram Caption: Exceeds 2,200 characters.''] else []))"

definition check_ig_alt_text :: "json \<Rightarrow> py_error + string list" where
  "check_ig_alt_text v =
     (case py_len v of
        Inl e \<Rightarrow> Inl e
      | Inr n \<Rightarrow> Inr (if n > 100 then [''Instagram Alt Text: Exceeds 100 characters.''] else []))"

definition check_hashtag_count :: "json \<Rightarrow> py_error + string list" where
  "check_hashtag_count v =
     (case py_len v of
        Inl e \<Rightarrow> Inl e
      | Inr n \<Rightarrow>
          Inr (if \<not> (15 \<le> n \<and> n \<le> 30)
               then [''Instagram Hashtags: Incorrect count ('' @ str_nat n @ ''). Must be 15-30.'']
               else []))"

definition missing_hash :: "json \<Rightarrow> py_error + string list" where
  "missing_hash v =
     (case py_iter v of
        Inl e \<Rightarrow> Inl e
      | Inr items \<Rightarrow> items_where (\<lambda>h. \<not> startswith h ''#'') items)"

definition check_hashtag_prefix :: "json \<Rightarrow> py_error + string list" where
  "check_hashtag_prefix v =
     (case missing_hash v of
        Inl e \<Rightarrow> Inl e
      | Inr missing \<Rightarrow>
          Inr (if missing \<noteq> []
               then [''Instagram Hashtags: Missing '#' on: '' @ py_repr_list (take 3 missing)]
               else []))"

definition check_title :: "json \<Rightarrow> py_error + string list" where
  "check_title v =
     (case py_len v of
        Inl e \<Rightarrow> Inl e
      | Inr n \<Rightarrow> Inr (if n > 100 then [''Pinterest Title: Exceeds 100 characters.''] else []))"

definition check_description :: "json \<Rightarrow> py_error + string list" where
  "check_description v =
     (case py_len v of
        Inl e \<Rightarrow> Inl e
      | Inr n \<Rightarrow> Inr (if n > 500 then [''Pinterest Description: Exceeds 500 characters.''] else []))"

definition check_keyword_count :: "json \<Rightarrow> py_error + string list" where
  "check_keyword_count v =
     (case py_len v of
        Inl e \<Rightarrow> Inl e
      | Inr n \<Rightarrow>
          Inr (if \<not> (15 \<le> n \<and> n \<le> 20)
               then [''Pinterest Keywords: Incorrect count ('' @ str_nat n @ ''). Must be 15-20.'']
               else []))"

definition has_hash :: "json \<Rightarrow> py_error + string list" where
  "has_hash v =
     (case py_iter v of
        Inl e \<Rightarrow> Inl e
      | Inr items \<Rightarrow> items_where (\<lambda>k. startswith k ''#'') items)"

definition check_keyword_prefix :: "json \<Rightarrow> py_error + string list" where
  "check_keyword_prefix v =
     (case has_hash v of
        Inl e \<Rightarrow> Inl e
      | Inr found \<Rightarrow>
          Inr (if found \<noteq> []
               then [''Pinterest Keywords: Should not have '#': '' @ py_repr_list (take 3 found)]
               else []))"

text \<open>
  The body of the \<open>try\<close>: the issues appended so far, and the exception that ended the
  body, if one did. The subscripts and the checks stand in the order the source
  evaluates them; an exception leaves the issues appended before it in place.
\<close>

definition pinterest_body :: "json \<Rightarrow> string list \<Rightarrow> string list \<times> py_error option" where
  "pinterest_body c issues =
     (case subscript c ''pinterest'' of Inl e \<Rightarrow> (issues, Some e) | Inr pin \<Rightarrow>
      (case subscript pin ''title'' of Inl e \<Rightarrow> (issues, Some e) | Inr title \<Rightarrow>
      (case check_title title of Inl e \<Rightarrow> (issues, Some e) | Inr i5 \<Rightarrow>
      (case subscript pin ''description'' of Inl e \<Rightarrow> (issues @ i5, Some e) | Inr description \<Rightarrow>
      (case check_description description of Inl e \<Rightarrow> (issues @ i5, Some e) | Inr i6 \<Rightarrow>
      (case subscript pin ''keywords'' of Inl e \<Rightarrow> (issues @ i5 @ i6, Some e) | Inr keywords \<Rightarrow>
      (case check_keyword_count keywords of Inl e \<Rightarrow> (issues @ i5 @ i6, Some e) | Inr i7 \<Rightarrow>
      (case check_keyword_prefix keywords of
         Inl e \<Rightarrow> (issues @ i5 @ i6 @ i7, Some e)
       | Inr i8 \<Rightarrow> (issues @ i5 @ i6 @ i7 @ i8, None)))))))))"

definition try_body :: "json \<Rightarrow> string list \<times> py_error option" where
  "try_body c =
     (case subscript c ''instagram'' of Inl e \<Rightarrow> ([], Some e) | Inr ig \<Rightarrow>
      (case subscript ig ''caption'' of Inl e \<Rightarrow> ([], Some e) | Inr caption \<Rightarrow>
      (case check_caption caption of Inl e \<Rightarrow> ([], Some e) | Inr i1 \<Rightarrow>
      (case subscript ig ''alt_text'' of Inl e \<Rightarrow> (i1, Some e) | Inr alt_text \<Rightarrow>
      (case check_ig_alt_text alt_text of Inl e \<Rightarrow> (i1, Some e) | Inr i2 \<Rightarrow>
      (case subscript ig ''hashtags'' of Inl e \<Rightarrow> (i1 @ i2, Some e) | Inr hashtags \<Rightarrow>
      (case check_hashtag_count hashtags of Inl e \<Rightarrow> (i1 @ i2, Some e) | Inr i3 \<Rightarrow>
      (case check_hashtag_prefix hashtags of
         Inl e \<Rightarrow> (i1 @ i2 @ i3, Some e)
       | Inr i4 \<Rightarrow> pinterest_body c (i1 @ i2 @ i3 @ i4)))))))))"

text \<open>\<open>str(e)\<close> of a \<open>KeyError\<close> is the \<open>repr\<close> of the key.\<close>

definition missing_field_issue :: "string \<Rightarrow> string" where
  "missing_field_issue k =
     ''A required field is missing from the AI's response: '' @ py_repr k"

text \<open>
  The issue list at the \<open>return\<close>: the \<open>except KeyError\<close> clause appends one more
  issue, and any other exception leaves the function.
\<close>

definition validator_issues :: "json \<Rightarrow> py_error + string list" where
  "validator_issues c =
     (case try_body c of
        (issues, None) \<Rightarrow> Inr issues
      | (issues, Some (KeyError k)) \<Rightarrow> Inr (issues @ [missing_field_issue k])
      | (issues, Some TypeError) \<Rightarrow> Inl TypeError
      | (issues, Some AttributeError) \<Rightarrow> Inl AttributeError)"

definition failed_header :: string where
  "failed_header = ''Validation Failed. You MUST fix these issues:''"

definition issue_sep :: string where
  "issue_sep = [newline, CHR ''-'', CHR '' '']"

definition comprehensive_content_validator :: "json \<Rightarrow> py_error + string" where
  "comprehensive_content_validator c =
     (case validator_issues c of
        Inl e \<Rightarrow> Inl e
      | Inr issues \<Rightarrow>
          Inr (if issues \<noteq> []
               then py_join issue_sep (failed_header # issues)
               else ''Validation Passed''))"

section \<open>The feedback formatter\<close>

text \<open>
  \<open>format_feedback_for_prompt\<close> (src/main.py, lines 650 to 662) takes the text the
  validator returned and gives the block that goes into the next prompt. It reads
  nothing but its argument.
\<close>

definition format_feedback_for_prompt :: "string \<Rightarrow> string" where
  "format_feedback_for_prompt feedback =
     (if \<not> py_in ''Failed'' feedback then ''''
      else
        let issues = py_split (py_strip (py_replace failed_header '''' feedback)) issue_sep;
            valid_issues = map py_strip (filter (\<lambda>issue. py_strip issue \<noteq> []) issues)
        in if valid_issues = [] then ''''
           else ''<PREVIOUS_ATTEMPT_FEEDBACK>\<newline>You MUST fix the following errors from your last attempt:\<newline>''
             @ py_join [newline]
                 (map (\<lambda>(i, issue). str_nat (i + 1) @ ''. '' @ issue) (enumerate 0 valid_issues))
             @ ''\<newline></PREVIOUS_ATTEMPT_FEEDBACK>'')"

text \<open>
  An issue is plain when it is not empty, has no line feed, has no white space at
  either end and does not contain the header of the validator's text. The issues that
  the checks of the validator build are of this kind unless an item they quote
  contains the header.
\<close>

definition plain_issue :: "string \<Rightarrow> bool" where
  "plain_issue x =
     (x \<noteq> [] \<and> newline \<notin> set x \<and> \<not> py_isspace (hd x) \<and> \<not> py_isspace (last x)
      \<and> \<not> py_in failed_header x)"

section \<open>The active generation path\<close>

text \<open>
  \<open>generate_for_platform\<close> (src/main.py, lines 98 to 128) and the handler of the
  Generate Content button (lines 199 to 215). What lies outside the program is a
  parameter: the environment variable, what \<open>model.invoke\<close> does with the request
  built for a platform (it raises, or it returns the text of a response), and what
  \<open>parser.parse\<close> does with a text (it raises, or it returns a JSON value). The
  constructors of the client and of the message only build objects and are taken not
  to raise. The effects are a log of events: the calls of the external model and the
  messages shown with \<open>st.error\<close>.
\<close>

datatype 'a outcome = Raises string | Returns 'a

record platform_config =
  name :: string
  prompt :: string

text \<open>
  \<open>PLATFORM_CONFIG\<close>, in the order of the source. The entries \<open>icon\<close> (an emoji shown
  beside the checkbox) and \<open>pydantic_model\<close> (used for the format instructions of the
  prompt) are left out.
\<close>

definition PLATFORM_CONFIG :: "(string \<times> platform_config) list" where
  "PLATFORM_CONFIG =
     [(''instagram'', \<lparr>name = ''Instagram'',
         prompt = ''Generate an engaging caption, 15-20 relevant hashtags, and descriptive alt text for an Instagram post.''\<rparr>),
      (''facebook'', \<lparr>name = ''Facebook'',
         prompt = ''Create a compelling Facebook post with an optional headline. The tone can be more detailed and community-focused. Ask a question to drive comments.''\<rparr>),
      (''x'', \<lparr>name = ''X (Twitter)'',
         prompt = ''Write a short, punchy tweet (under 280 characters) with 2-3 key hashtags.''\<rparr>),
      (''pinterest'', \<lparr>name = ''Pinterest'',
         prompt = ''Create a keyword-rich title and description for a Pinterest pin. Also provide a list of 10-15 relevant keywords.''\<rparr>),
      (''linkedin'', \<lparr>name = ''LinkedIn'',
         prompt = ''Compose a professional LinkedIn post. The tone should be informative, industry-relevant, or share company insights. Include 3-5 professional hashtags.''\<rparr>)]"

record request =
  req_platform :: platform_config
  req_context :: string
  req_image :: "string option"

record env =
  google_api_key :: "string option"
  invoke :: "request \<Rightarrow> string outcome"
  parse :: "string \<Rightarrow> json outcome"

datatype event = ModelInvoked string | StError string

definition error_message :: "platform_config \<Rightarrow> string \<Rightarrow> string" where
  "error_message config e = ''Error generating content for '' @ name config @ '': '' @ e"

text \<open>\<open>not google_api_key\<close>: the variable is unset, or set to the empty string.\<close>

definition key_missing :: "env \<Rightarrow> bool" where
  "key_missing e = (case google_api_key e of None \<Rightarrow> True | Some k \<Rightarrow> k = [])"

text \<open>
  The result is the value returned and the events of the call, or the exception that
  leaves the function: the subscript \<open>PLATFORM_CONFIG[platform_key]\<close> stands before
  the \<open>try\<close>. Inside the \<open>try\<close> every exception ends in \<open>st.error\<close> and \<open>None\<close>.
\<close>

definition generate_for_platform ::
    "env \<Rightarrow> string \<Rightarrow> string option \<Rightarrow> string \<Rightarrow> py_error + json \<times> event list" where
  "generate_for_platform e platform_key image_base64 business_context =
     (case getitem PLATFORM_CONFIG platform_key of
        Inl err \<Rightarrow> Inl err
      | Inr config \<Rightarrow>
          if key_missing e
          then Inr (JNull,
                 [StError (error_message config ''GOOGLE_API_KEY not found in environment variables.'')])
          else
            (case invoke e \<lparr>req_platform = config, req_context = business_context, req_image = image_base64\<rparr> of
               Raises msg \<Rightarrow> Inr (JNull, [ModelInvoked platform_key, StError (error_message config msg)])
             | Returns text \<Rightarrow>
                 (case parse e text of
                    Raises msg \<Rightarrow>
                      Inr (JNull, [ModelInvoked platform_key, StError (error_message config msg)])
                  | Returns parsed_content \<Rightarrow> Inr (parsed_content, [ModelInvoked platform_key]))))"

text \<open>The number of calls of the external model in a log.\<close>

fun is_invoke :: "event \<Rightarrow> bool" where
  "is_invoke (ModelInvoked k) = True"
| "is_invoke (StError m) = False"

definition model_calls :: "event list \<Rightarrow> nat" where
  "model_calls log = length (filter is_invoke log)"

text \<open>
  The session state the handler reads and writes. \<open>generated_content\<close> is a Python
  dictionary, which keeps its keys in the order of their first insertion: an
  association list, with \<open>d[k] = v\<close> replacing the value of a key that is there and
  appending a key that is not.
\<close>

fun setitem :: "(string \<times> 'v) list \<Rightarrow> string \<Rightarrow> 'v \<Rightarrow> (string \<times> 'v) list" where
  "setitem [] k v = [(k, v)]"
| "setitem (p # ps) k v = (if fst p = k then (k, v) # ps else p # setitem ps k v)"

record session =
  generated_content :: "(string \<times> json) list"
  image_base64 :: "string option"
  platforms_selected :: "string list"
  business_context :: string
  just_generated :: bool

text \<open>
  Lines 184 to 193: the selection is rebuilt on every run of the script from the keys
  of \<open>PLATFORM_CONFIG\<close>, in their order, keeping those whose checkbox is ticked.
\<close>

definition select_platforms :: "(string \<Rightarrow> bool) \<Rightarrow> session \<Rightarrow> session" where
  "select_platforms checkbox ss =
     ss\<lparr>platforms_selected := filter checkbox (map fst PLATFORM_CONFIG)\<rparr>"

text \<open>
  The \<open>for\<close> loop of the handler over the platforms still to do. The handler itself
  subscripts \<open>PLATFORM_CONFIG\<close> (line 203) before it calls \<open>generate_for_platform\<close>.
\<close>

fun generate_loop ::
    "env \<Rightarrow> string list \<Rightarrow> session \<times> event list \<Rightarrow> py_error + session \<times> event list" where
  "generate_loop e [] acc = Inr acc"
| "generate_loop e (platform_key # rest) (ss, log) =
     (case getitem PLATFORM_CONFIG platform_key of
        Inl err \<Rightarrow> Inl err
      | Inr config \<Rightarrow>
          (case generate_for_platform e platform_key (image_base64 ss) (business_context ss) of
             Inl err \<Rightarrow> Inl err
           | Inr (content, events) \<Rightarrow>
               generate_loop e rest
                 (if py_truthy content
                  then ss\<lparr>generated_content := setitem (generated_content ss) platform_key content\<rparr>
                  else ss,
                  log @ events)))"

definition generate_content_handler :: "env \<Rightarrow> session \<Rightarrow> py_error + session \<times> event list" where
  "generate_content_handler e ss =
     (case generate_loop e (platforms_selected ss) (ss\<lparr>generated_content := []\<rparr>, []) of
        Inl err \<Rightarrow> Inl err
      | Inr (ss', log) \<Rightarrow>
          Inr (if generated_content ss' \<noteq> [] then ss'\<lparr>just_generated := True\<rparr> else ss', log))"

text \<open>What \<open>generate_for_platform\<close> returns for a platform in a session, as a value.\<close>

definition result_of :: "env \<Rightarrow> session \<Rightarrow> string \<Rightarrow> json" where
  "result_of e ss k =
     (case generate_for_platform e k (session.image_base64 ss) (business_context ss) of
        Inl err \<Rightarrow> JNull
      | Inr (v, log) \<Rightarrow> v)"

definition events_of :: "env \<Rightarrow> session \<Rightarrow> string \<Rightarrow> event list" where
  "events_of e ss k =
     (case generate_for_platform e k (session.image_base64 ss) (business_context ss) of
        Inl err \<Rightarrow> []
      | Inr (v, log) \<Rightarrow> log)"

section \<open>The retry workflow\<close>

text \<open>
  The graph of src/main.py, lines 333 to 446: the nodes \<open>analyzer\<close>,
  \<open>content_creator\<close>, \<open>validator\<close> and \<open>retry_counter\<close>, and the router
  \<open>should_continue\<close>. \<open>GraphState\<close> is a dictionary whose keys are there only once
  a node has written them, so every field is optional: \<open>state.get(k)\<close> reads the
  option and \<open>state[k]\<close> raises \<open>KeyError\<close> on \<open>None\<close>. A node returns the keys it
  writes and the graph stores them over the old values; here a node returns the state
  after that update. The constructors of the model client and of the parser, which
  stand before the \<open>try\<close> of a node, are taken not to raise, and the progress
  messages written with \<open>st.write\<close> are left out.
\<close>

record graph_state =
  image_base64 :: "string option"
  analysis :: "json option"
  social_content :: "json option"
  validation_feedback :: "string option"
  retry_count :: "int option"
  max_retries :: "int option"
  error_history :: "string list option"

text \<open>The \<open>inputs\<close> of the button handler (line 469): the image and the budget.\<close>

definition graph_inputs :: "string \<Rightarrow> int \<Rightarrow> graph_state" where
  "graph_inputs img m =
     \<lparr>image_base64 = Some img, analysis = None, social_content = None,
      validation_feedback = None, retry_count = None, max_retries = Some m,
      error_history = None\<rparr>"

text \<open>
  A node that calls the model takes what that call does as an argument: it raises,
  or the chain of model and parser returns the parsed value.
\<close>

definition analyze_image_node :: "json outcome \<Rightarrow> graph_state \<Rightarrow> py_error + graph_state" where
  "analyze_image_node call state =
     (case image_base64 state of
        None \<Rightarrow> Inl (KeyError ''image_base64'')
      | Some img \<Rightarrow>
          (case call of
             Returns a \<Rightarrow> Inr (state\<lparr>analysis := Some a, retry_count := Some 0\<rparr>)
           | Raises e \<Rightarrow> Inr (state\<lparr>error_history := Some [''Image Analysis Failed: '' @ e]\<rparr>)))"

text \<open>
  \<open>state['analysis']\<close> is read while the prompt is built, before the \<open>try\<close> and
  before the model is called: without an analysis the node raises and calls nothing.
\<close>

definition create_social_content_node ::
    "json outcome \<Rightarrow> graph_state \<Rightarrow> py_error + graph_state" where
  "create_social_content_node call state =
     (case analysis state of
        None \<Rightarrow> Inl (KeyError ''analysis'')
      | Some a \<Rightarrow>
          (case call of
             Returns c \<Rightarrow> Inr (state\<lparr>social_content := Some c\<rparr>)
           | Raises e \<Rightarrow> Inr (state\<lparr>error_history := Some [''Content Generation Failed: '' @ e]\<rparr>)))"

text \<open>
  \<open>not content\<close>: the key is absent, or its value is false as a truth value. The
  node has no \<open>try\<close>: an exception of the validator leaves the node.
\<close>

definition validate_content_node :: "graph_state \<Rightarrow> py_error + graph_state" where
  "validate_content_node state =
     (case social_content state of
        None \<Rightarrow>
          Inr (state\<lparr>validation_feedback := Some ''Validation Failed: No content was generated.''\<rparr>)
      | Some c \<Rightarrow>
          if \<not> py_truthy c
          then Inr (state\<lparr>validation_feedback := Some ''Validation Failed: No content was generated.''\<rparr>)
          else
            (case comprehensive_content_validator c of
               Inl e \<Rightarrow> Inl e
             | Inr feedback \<Rightarrow> Inr (state\<lparr>validation_feedback := Some feedback\<rparr>)))"

datatype route = Retry | End

datatype notice = MaxRetriesWarning | SuccessNotice

text \<open>
  The router gives the edge to follow and the notice it shows (\<open>st.warning\<close> when the
  budget is used up, \<open>st.success\<close> when the validation passed, nothing after a hard
  failure).
\<close>

definition should_continue :: "graph_state \<Rightarrow> py_error + route \<times> notice option" where
  "should_continue state =
     (if (case error_history state of None \<Rightarrow> False | Some h \<Rightarrow> h \<noteq> []) then Inr (End, None)
      else if py_in ''Failed'' (case validation_feedback state of None \<Rightarrow> '''' | Some f \<Rightarrow> f)
      then
        (case retry_count state of
           None \<Rightarrow> Inl (KeyError ''retry_count'')
         | Some r \<Rightarrow>
             (case max_retries state of
                None \<Rightarrow> Inl (KeyError ''max_retries'')
              | Some m \<Rightarrow> if r \<ge> m then Inr (End, Some MaxRetriesWarning) else Inr (Retry, None)))
      else Inr (End, Some SuccessNotice))"

definition increment_retry_node :: "graph_state \<Rightarrow> py_error + graph_state" where
  "increment_retry_node state =
     (case retry_count state of
        None \<Rightarrow> Inl (KeyError ''retry_count'')
      | Some r \<Rightarrow> Inr (state\<lparr>retry_count := Some (r + 1)\<rparr>))"

text \<open>
  What is left of the budget; it is the measure of the loop below. The step limit of
  the graph library, which can only end a run earlier with an exception, is not part
  of the source and is not modelled.
\<close>

definition budget_left :: "graph_state \<Rightarrow> nat" where
  "budget_left state =
     (case (retry_count state, max_retries state) of
        (Some r, Some m) \<Rightarrow> nat (m - r)
      | _ \<Rightarrow> 0)"

text \<open>
  The cycle \<open>content_creator\<close>, \<open>validator\<close>, \<open>should_continue\<close>, \<open>retry_counter\<close>.
  \<open>gen k\<close> is what the call number \<open>k\<close> of the generation model does, and \<open>n\<close> counts
  the calls made so far. The result is the final state with the notice of the router,
  or the exception that ends the run, and the number of calls of the generation model.
\<close>

function content_loop ::
    "(nat \<Rightarrow> json outcome) \<Rightarrow> graph_state \<Rightarrow> nat
      \<Rightarrow> (py_error + graph_state \<times> notice option) \<times> nat" where
  "content_loop gen state n =
     (case create_social_content_node (gen n) state of
        Inl e \<Rightarrow> (Inl e, n)
      | Inr s1 \<Rightarrow>
          (case validate_content_node s1 of
             Inl e \<Rightarrow> (Inl e, Suc n)
           | Inr s2 \<Rightarrow>
               (case should_continue s2 of
                  Inl e \<Rightarrow> (Inl e, Suc n)
                | Inr (End, shown) \<Rightarrow> (Inr (s2, shown), Suc n)
                | Inr (Retry, shown) \<Rightarrow>
                    (case increment_retry_node s2 of
                       Inl e \<Rightarrow> (Inl e, Suc n)
                     | Inr s3 \<Rightarrow> content_loop gen s3 (Suc n)))))"
  by pat_completeness auto
text \<open>
  The loop ends: the router answers \<open>retry\<close> only while \<open>retry_count\<close> is below
  \<open>max_retries\<close>, the counter node adds one, and no other node writes either key.
\<close>

termination
proof (relation "measure (\<lambda>(gen, state, n). budget_left state)", goal_cases)
  case 1
  show ?case by simp
next
  case (2 gen state n s1 s2 a x shown s3)
  from 2 have "should_continue s2 = Inr (Retry, shown)"
    by simp
  then obtain k m where km: "retry_count s2 = Some k" "max_retries s2 = Some m" "k < m"
    by (auto simp: should_continue_def split: if_splits option.splits)
  have v: "retry_count s2 = retry_count s1" "max_retries s2 = max_retries s1"
    using 2(2)
    by (auto simp: validate_content_node_def split: option.splits if_splits sum.splits)
  have c: "retry_count s1 = retry_count state" "max_retries s1 = max_retries state"
    using 2(1)
    by (auto simp: create_social_content_node_def split: option.splits outcome.splits)
  have i: "retry_count s3 = Some (k + 1)" "max_retries s3 = Some m"
    using 2(6) km by (auto simp: increment_retry_node_def)
  show ?case
    using km v c i by (simp add: budget_left_def)
qed

declare content_loop.simps [simp del]

record world =
  analysis_call :: "json outcome"
  generation_call :: "nat \<Rightarrow> json outcome"

text \<open>\<open>app.invoke(inputs)\<close>: the entry point \<open>analyzer\<close>, then the cycle.\<close>

definition app_invoke ::
    "world \<Rightarrow> graph_state \<Rightarrow> (py_error + graph_state \<times> notice option) \<times> nat" where
  "app_invoke w inputs =
     (case analyze_image_node (analysis_call w) inputs of
        Inl e \<Rightarrow> (Inl e, 0)
      | Inr s \<Rightarrow> content_loop (generation_call w) s 0)"

section \<open>Example inputs\<close>

text \<open>
  Concrete candidates and worlds at which the results below are evaluated. The first
  two follow the examples of success and of failure that the prompt of the source
  quotes (lines 610 to 645), with shorter texts.
\<close>

definition success_instagram :: json where
  "success_instagram =
     JObj [(''caption'', JStr ''Chasing the last light of the day. Every sunset is an opportunity to reset.''),
           (''hashtags'', JArr (map JStr (replicate 17 ''#sunsetlover''))),
           (''alt_text'', JStr ''Vibrant orange and pink sunset over a calm ocean.'')]"

definition success_pinterest :: json where
  "success_pinterest =
     JObj [(''title'', JStr ''Breathtaking Ocean Sunset with Palm Tree Silhouettes''),
           (''description'', JStr ''Discover the magic of golden hour with this stunning sunset photo.''),
           (''keywords'', JArr (map JStr (replicate 16 ''sunset photography''))),
           (''alt_text'', JStr ''A breathtaking wide-angle shot.'')]"

definition example_of_success :: json where
  "example_of_success =
     JObj [(''instagram'', success_instagram), (''pinterest'', success_pinterest)]"

text \<open>Candidates with a missing key, with three hashtags, and with offending items.\<close>

definition long_alt_instagram :: json where
  "long_alt_instagram =
     JObj [(''hashtags'', JArr [JStr ''travel'']), (''alt_text'', JStr (replicate 101 CHR ''a''))]"

definition missing_caption_candidate :: json where
  "missing_caption_candidate =
     JObj [(''instagram'', long_alt_instagram), (''pinterest'', success_pinterest)]"

definition no_alt_text_instagram :: json where
  "no_alt_text_instagram =
     JObj [(''caption'', JStr (replicate 2201 CHR ''a'')), (''hashtags'', JArr [JStr ''travel''])]"

definition missing_alt_text_candidate :: json where
  "missing_alt_text_candidate =
     JObj [(''instagram'', no_alt_text_instagram), (''pinterest'', success_pinterest)]"

definition three_hashtags :: json where
  "three_hashtags = JArr [JStr ''travel'', JStr ''sunset'', JStr ''#vacation'']"

definition three_hashtags_instagram :: json where
  "three_hashtags_instagram =
     JObj [(''caption'', JStr ''A very long caption...''),
           (''hashtags'', three_hashtags),
           (''alt_text'', JStr ''A beautiful sunset over the ocean with palm trees.'')]"

definition three_hashtags_candidate :: json where
  "three_hashtags_candidate =
     JObj [(''instagram'', three_hashtags_instagram), (''pinterest'', success_pinterest)]"

definition captionless_instagram :: json where
  "captionless_instagram =
     JObj [(''hashtags'', three_hashtags),
           (''alt_text'', JStr ''A beautiful sunset over the ocean with palm trees.'')]"

definition captionless_candidate :: json where
  "captionless_candidate =
     JObj [(''instagram'', captionless_instagram), (''pinterest'', success_pinterest)]"

definition twenty_hashtags :: json where
  "twenty_hashtags =
     JArr (map JStr (replicate 15 ''#sunsetlover''
                       @ [''ocean'', ''dusk'', ''travel'', ''beach'', ''sky'']))"

definition five_offenders_instagram :: json where
  "five_offenders_instagram =
     JObj [(''caption'', JStr ''Chasing the last light of the day.''),
           (''hashtags'', twenty_hashtags),
           (''alt_text'', JStr ''Vibrant orange and pink sunset over a calm ocean.'')]"

definition marked_keywords :: json where
  "marked_keywords = JArr (map JStr ([''#travel'', ''#sunset''] @ replicate 14 ''vacation''))"

definition two_offenders_pinterest :: json where
  "two_offenders_pinterest =
     JObj [(''title'', JStr ''A beautiful sunset''),
           (''description'', JStr ''Just a photo.''),
           (''keywords'', marked_keywords)]"

definition offenders_candidate :: json where
  "offenders_candidate =
     JObj [(''instagram'', five_offenders_instagram), (''pinterest'', two_offenders_pinterest)]"

definition untitled_pinterest :: json where
  "untitled_pinterest =
     JObj [(''description'', JStr ''Just a photo.''), (''keywords'', marked_keywords)]"

definition untitled_candidate :: json where
  "untitled_candidate =
     JObj [(''instagram'', five_offenders_instagram), (''pinterest'', untitled_pinterest)]"

definition bare_pinterest :: json where
  "bare_pinterest =
     JObj [(''title'', JStr ''A beautiful sunset''),
           (''description'', JStr ''Just a photo.''),
           (''keywords'', JArr (map JStr (replicate 16 ''sunset photography'')))]"

definition bare_pinterest_candidate :: json where
  "bare_pinterest_candidate =
     JObj [(''instagram'', success_instagram), (''pinterest'', bare_pinterest)]"

text \<open>
  Candidates outside the declared types: the caption is \<open>null\<close>, and one hashtag is a
  number.
\<close>

definition null_caption_candidate :: json where
  "null_caption_candidate =
     JObj [(''instagram'', JObj [(''caption'', JNull)]), (''pinterest'', success_pinterest)]"

definition number_hashtag_candidate :: json where
  "number_hashtag_candidate =
     JObj [(''instagram'',
              JObj [(''caption'', JStr ''Golden hour.''),
                    (''hashtags'', JArr [JStr ''#sunset'', JNum 7]),
                    (''alt_text'', JStr ''A sunset.'')]),
           (''pinterest'', success_pinterest)]"

text \<open>
  Environments of the active path: no key, an empty key, and a key with a service
  that fails for Facebook and answers with the name of the platform otherwise, which
  the parser refuses for Pinterest and reads as an empty object for LinkedIn. The
  session still holds content from an earlier run.
\<close>

definition no_key_env :: env where
  "no_key_env =
     \<lparr>google_api_key = None,
      invoke = (\<lambda>r. Returns ''{}''),
      parse = (\<lambda>t. Returns (JObj []))\<rparr>"

definition empty_key_env :: env where
  "empty_key_env =
     \<lparr>google_api_key = Some [],
      invoke = (\<lambda>r. Returns ''{}''),
      parse = (\<lambda>t. Returns (JObj []))\<rparr>"

definition mixed_env :: env where
  "mixed_env =
     \<lparr>google_api_key = Some ''secret'',
      invoke = (\<lambda>r. if name (req_platform r) = ''Facebook'' then Raises ''503 unavailable''
                    else Returns (name (req_platform r))),
      parse = (\<lambda>t. if t = ''Pinterest'' then Raises ''Invalid json output''
                   else if t = ''LinkedIn'' then Returns (JObj [])
                   else Returns (JObj [(''text'', JStr t)]))\<rparr>"

definition stale_session :: session where
  "stale_session =
     \<lparr>generated_content = [(''x'', JStr ''old'')], image_base64 = Some ''aGVsbG8='',
      platforms_selected = [], business_context = [], just_generated = False\<rparr>"

text \<open>The selection with every checkbox ticked.\<close>

definition all_ticked :: "string \<Rightarrow> bool" where
  "all_ticked k = True"

text \<open>
  Worlds of the retry workflow: one whose every attempt returns a candidate that fails
  the validation, and one whose second generation call raises.
\<close>

definition sunset_analysis :: json where
  "sunset_analysis =
     JObj [(''content_type'', JStr ''photo''),
           (''main_subjects'', JArr [JStr ''sunset'', JStr ''ocean'']),
           (''style_and_mood'', JStr ''calm''),
           (''target_audience'', JStr ''travellers'')]"

text \<open>Attempt \<open>k\<close> returns a candidate without \<open>alt_text\<close>, whose caption is the number \<open>k\<close>.\<close>

definition numbered_candidate :: "nat \<Rightarrow> json" where
  "numbered_candidate k = JObj [(''instagram'', JObj [(''caption'', JStr (str_nat k))])]"

definition never_valid_world :: world where
  "never_valid_world =
     \<lparr>analysis_call = Returns sunset_analysis,
      generation_call = (\<lambda>k. Returns (numbered_candidate k))\<rparr>"

definition quota_world :: world where
  "quota_world =
     \<lparr>analysis_call = Returns sunset_analysis,
      generation_call = (\<lambda>k. if k = 1 then Raises ''429 quota exceeded''
                             else Returns (numbered_candidate k))\<rparr>"

text \<open>
  A world whose analysis call fails while the generation model would answer with a
  valid candidate.
\<close>

definition failed_analysis_world :: world where
  "failed_analysis_world =
     \<lparr>analysis_call = Raises ''503 unavailable'',
      generation_call = (\<lambda>k. Returns example_of_success)\<rparr>"

section \<open>Facts on the string operations\<close>

lemma py_in_sublist: "py_in sub s = sublist sub s"
  by (induction s) (simp_all add: sublist_Cons_right)

lemma py_in_failed_header: "py_in ''Failed'' (failed_header @ rest)"
proof -
  have "py_in ''Failed'' failed_header"
    by (simp add: failed_header_def)
  then show ?thesis
    by (simp add: py_in_sublist sublist_append)
qed

lemma prefix_stops_at_char:
  assumes "c \<notin> set h"
  shows "prefix h (a @ c # b) \<longleftrightarrow> prefix h a"
proof
  assume "prefix h (a @ c # b)"
  then consider "prefix h a" | us where "h = a @ us" "prefix us (c # b)"
    by (auto simp: prefix_append)
  then show "prefix h a"
  proof cases
    case 2
    then have "us = []"
      using assms by (cases us) auto
    then show ?thesis
      using 2 by simp
  qed
next
  assume "prefix h a"
  then show "prefix h (a @ c # b)"
    by (simp add: prefix_prefix)
qed

lemma sublist_across_char:
  assumes "c \<notin> set h" and "h \<noteq> []"
  shows "sublist h (a @ c # b) \<longleftrightarrow> sublist h a \<or> sublist h b"
proof (induction a)
  case Nil
  have "prefix h (c # b) \<longleftrightarrow> prefix h []"
    using prefix_stops_at_char [OF assms(1), of "[]" b] by simp
  then show ?case
    using assms(2) by (simp add: sublist_Cons_right)
next
  case (Cons x a)
  have "prefix h (x # a @ c # b) \<longleftrightarrow> prefix h (x # a)"
    using prefix_stops_at_char [OF assms(1), of "x # a" b] by simp
  then show ?case
    using Cons by (auto simp: sublist_Cons_right)
qed

lemma py_replace_at_occurrence:
  "old \<noteq> [] \<Longrightarrow> py_replace old new (old @ rest) = new @ py_replace old new rest"
  by (subst py_replace.simps) simp

lemma py_replace_no_occurrence:
  "old \<noteq> [] \<Longrightarrow> \<not> py_in old s \<Longrightarrow> py_replace old new s = s"
proof (induction s)
  case Nil
  then show ?case
    by (subst py_replace.simps) simp
next
  case (Cons c s)
  then have "\<not> prefix old (c # s)" and "py_replace old new s = s"
    by simp_all
  then show ?case
    using Cons.prems(1) by (subst py_replace.simps) simp
qed

lemma strip_right_id:
  "t \<noteq> [] \<Longrightarrow> \<not> P (last t) \<Longrightarrow> rev (dropWhile P (rev t)) = t"
  by (cases t rule: rev_cases) simp_all

lemma py_strip_id:
  "t \<noteq> [] \<Longrightarrow> \<not> py_isspace (hd t) \<Longrightarrow> \<not> py_isspace (last t) \<Longrightarrow> py_strip t = t"
proof -
  assume t: "t \<noteq> []" "\<not> py_isspace (hd t)" "\<not> py_isspace (last t)"
  then have "dropWhile py_isspace t = t"
    by (cases t) simp_all
  then show ?thesis
    using t by (simp add: py_strip_def strip_right_id)
qed

lemma split_from_piece:
  "newline \<notin> set u \<Longrightarrow> split_from issue_sep acc (u @ rest) = split_from issue_sep (rev u @ acc) rest"
proof (induction u arbitrary: acc)
  case Nil
  then show ?case by simp
next
  case (Cons c u)
  then have "\<not> prefix issue_sep (c # u @ rest)"
    by (auto simp: issue_sep_def)
  then have "split_from issue_sep acc ((c # u) @ rest) = split_from issue_sep (c # acc) (u @ rest)"
    by (subst split_from.simps) simp
  then show ?case
    using Cons by simp
qed

lemma split_from_lines:
  "\<forall>x \<in> set xs. newline \<notin> set x
    \<Longrightarrow> split_from issue_sep acc (concat (map ((@) issue_sep) xs)) = rev acc # xs"
proof (induction xs arbitrary: acc)
  case Nil
  then show ?case
    by (subst split_from.simps) simp
next
  case (Cons x xs)
  let ?rest = "concat (map ((@) issue_sep) xs)"
  have "split_from issue_sep acc (issue_sep @ x @ ?rest)
      = rev acc # split_from issue_sep [] (x @ ?rest)"
    by (subst split_from.simps) (simp add: issue_sep_def)
  also have "\<dots> = rev acc # split_from issue_sep (rev x) ?rest"
    using split_from_piece [of x "[]" ?rest] Cons.prems by simp
  also have "\<dots> = rev acc # x # xs"
    using Cons by simp
  finally show ?case
    by simp
qed

lemma py_join_lines:
  "py_join sep (h # xs) = h @ concat (map ((@) sep) xs)"
  by (induction xs arbitrary: h) simp_all

section \<open>Results on the validator\<close>

lemmas validator_defs = validator_issues_def try_body_def pinterest_body_def
  comprehensive_content_validator_def

lemmas check_defs = check_caption_def check_ig_alt_text_def check_hashtag_count_def
  check_hashtag_prefix_def check_title_def check_description_def check_keyword_count_def
  check_keyword_prefix_def

lemmas string_defs = py_repr_list_def py_repr_def repr_quote_def repr_char_def squote_def
  dquote_def backslash_def newline_def py_isprintable_def startswith_def

text \<open>A subscript raises \<open>KeyError\<close> on a dictionary that lacks the key, and only there.\<close>

lemma subscript_KeyError:
  "subscript v k = Inl (KeyError k') \<longleftrightarrow> (\<exists>d. v = JObj d \<and> map_of d k = None \<and> k' = k)"
  by (cases v) (auto simp: getitem_def split: option.splits)

text \<open>The list comprehensions on a list of strings, and on items none of which is kept.\<close>

lemma items_where_strings:
  "items_where keep (map JStr xs) = Inr (filter keep xs)"
  by (induction xs) simp_all

lemma items_where_none:
  "\<forall>h \<in> set items. \<exists>s. h = JStr s \<and> \<not> keep s \<Longrightarrow> items_where keep items = Inr []"
  by (induction items) auto

text \<open>On a string and on a list of strings every check returns.\<close>

lemma checks_return_on_text:
  "\<not> isl (check_caption (JStr s))" "\<not> isl (check_ig_alt_text (JStr s))"
  "\<not> isl (check_hashtag_count (JStr s))" "\<not> isl (check_hashtag_prefix (JStr s))"
  "\<not> isl (check_title (JStr s))" "\<not> isl (check_description (JStr s))"
  "\<not> isl (check_keyword_count (JStr s))" "\<not> isl (check_keyword_prefix (JStr s))"
proof -
  have "map (\<lambda>c. JStr [c]) s = map JStr (map (\<lambda>c. [c]) s)"
    by simp
  then have i: "items_where keep (map (\<lambda>c. JStr [c]) s) = Inr (filter keep (map (\<lambda>c. [c]) s))"
    for keep
    by (simp only: items_where_strings)
  show "\<not> isl (check_caption (JStr s))" "\<not> isl (check_ig_alt_text (JStr s))"
    "\<not> isl (check_hashtag_count (JStr s))" "\<not> isl (check_hashtag_prefix (JStr s))"
    "\<not> isl (check_title (JStr s))" "\<not> isl (check_description (JStr s))"
    "\<not> isl (check_keyword_count (JStr s))" "\<not> isl (check_keyword_prefix (JStr s))"
    by (simp_all add: check_defs missing_hash_def has_hash_def i)
qed

lemma checks_return_on_text_list:
  "\<not> isl (check_caption (JArr (map JStr xs)))" "\<not> isl (check_ig_alt_text (JArr (map JStr xs)))"
  "\<not> isl (check_hashtag_count (JArr (map JStr xs)))"
  "\<not> isl (check_hashtag_prefix (JArr (map JStr xs)))"
  "\<not> isl (check_title (JArr (map JStr xs)))" "\<not> isl (check_description (JArr (map JStr xs)))"
  "\<not> isl (check_keyword_count (JArr (map JStr xs)))"
  "\<not> isl (check_keyword_prefix (JArr (map JStr xs)))"
  by (simp_all add: check_defs missing_hash_def has_hash_def items_where_strings)

text \<open>The issues of the Instagram checks stay in front of what the rest of the pass adds.\<close>

lemma pinterest_body_prefix:
  "prefix issues (fst (pinterest_body c issues))"
  by (simp add: pinterest_body_def split: sum.splits)

lemma validator_issues_prefix:
  "validator_issues c = Inr out \<Longrightarrow> prefix (fst (try_body c)) out"
  by (auto simp: validator_issues_def split: prod.splits option.splits py_error.splits)

text \<open>
  The validator does not read the key \<open>alt_text\<close> of \<open>pinterest\<close>, which the schema
  (line 320) and the rules of the prompt (line 388) list: a candidate that lacks it
  and meets every rule that is checked passes.
\<close>

lemma pinterest_alt_text_is_not_read:
  "subscript bare_pinterest ''alt_text'' = Inl (KeyError ''alt_text'')
   \<and> validator_issues bare_pinterest_candidate = Inr []
   \<and> comprehensive_content_validator bare_pinterest_candidate = Inr ''Validation Passed''"
  by code_simp

text \<open>
  A value outside the declared types makes the validator raise: \<open>len\<close> of \<open>null\<close>
  raises \<open>TypeError\<close>, and \<open>startswith\<close> on a number raises \<open>AttributeError\<close>. No
  issue list is returned, whatever was found before.
\<close>

lemma ill_typed_value_raises:
  "comprehensive_content_validator null_caption_candidate = Inl TypeError
   \<and> comprehensive_content_validator number_hashtag_candidate = Inl AttributeError"
  by code_simp

text \<open>
  Claim C8. A candidate in which every required field is there, the three texts are
  within their maximal lengths, both lists have a number of items within their range,
  every hashtag starts with \<open>#\<close> and no keyword does, is validated with no issue:
  the validator returns \<open>Validation Passed\<close>.
\<close>

theorem valid_candidate_passes:
  assumes "subscript c ''instagram'' = Inr ig"
    and "subscript ig ''caption'' = Inr caption"
    and "subscript ig ''alt_text'' = Inr alt_text"
    and "subscript ig ''hashtags'' = Inr hashtags"
    and "subscript c ''pinterest'' = Inr pin"
    and "subscript pin ''title'' = Inr title"
    and "subscript pin ''description'' = Inr description"
    and "subscript pin ''keywords'' = Inr keywords"
    and "py_len caption = Inr n1 \<and> n1 \<le> 2200"
    and "py_len alt_text = Inr n2 \<and> n2 \<le> 100"
    and "py_len hashtags = Inr n3 \<and> 15 \<le> n3 \<and> n3 \<le> 30"
    and "py_iter hashtags = Inr tags \<and> (\<forall>h \<in> set tags. \<exists>s. h = JStr s \<and> startswith s ''#'')"
    and "py_len title = Inr n5 \<and> n5 \<le> 100"
    and "py_len description = Inr n6 \<and> n6 \<le> 500"
    and "py_len keywords = Inr n7 \<and> 15 \<le> n7 \<and> n7 \<le> 20"
    and "py_iter keywords = Inr words \<and> (\<forall>k \<in> set words. \<exists>s. k = JStr s \<and> \<not> startswith s ''#'')"
  shows "validator_issues c = Inr []
    \<and> comprehensive_content_validator c = Inr ''Validation Passed''"
proof -
  have "items_where (\<lambda>h. \<not> startswith h ''#'') tags = Inr []"
    by (rule items_where_none) (use assms(12) in auto)
  then have m: "missing_hash hashtags = Inr []"
    using assms(12) by (simp add: missing_hash_def)
  have "items_where (\<lambda>k. startswith k ''#'') words = Inr []"
    by (rule items_where_none) (use assms(16) in auto)
  then have h: "has_hash keywords = Inr []"
    using assms(16) by (simp add: has_hash_def)
  have "validator_issues c = Inr []"
    using assms m h by (simp add: validator_defs check_defs)
  then show ?thesis
    by (simp add: comprehensive_content_validator_def)
qed

theorem valid_candidate_passes_witness:
  "validator_issues example_of_success = Inr []
   \<and> comprehensive_content_validator example_of_success = Inr ''Validation Passed''"
proof -
  have ig: "subscript example_of_success ''instagram'' = Inr success_instagram"
    and pin: "subscript example_of_success ''pinterest'' = Inr success_pinterest"
    by (simp_all add: example_of_success_def getitem_def)
  have f: "subscript success_instagram ''caption''
        = Inr (JStr ''Chasing the last light of the day. Every sunset is an opportunity to reset.'')"
      "subscript success_instagram ''alt_text''
        = Inr (JStr ''Vibrant orange and pink sunset over a calm ocean.'')"
      "subscript success_instagram ''hashtags'' = Inr (JArr (map JStr (replicate 17 ''#sunsetlover'')))"
    by (simp_all add: success_instagram_def getitem_def)
  have g: "subscript success_pinterest ''title''
        = Inr (JStr ''Breathtaking Ocean Sunset with Palm Tree Silhouettes'')"
      "subscript success_pinterest ''description''
        = Inr (JStr ''Discover the magic of golden hour with this stunning sunset photo.'')"
      "subscript success_pinterest ''keywords''
        = Inr (JArr (map JStr (replicate 16 ''sunset photography'')))"
    by (simp_all add: success_pinterest_def getitem_def)
  show ?thesis
    by (rule valid_candidate_passes
        [OF ig f pin g, where ?n1.0 = 75 and ?n2.0 = 49 and ?n3.0 = 17 and ?n5.0 = 52
          and ?n6.0 = 66 and ?n7.0 = 16
          and tags = "map JStr (replicate 17 ''#sunsetlover'')"
          and words = "map JStr (replicate 16 ''sunset photography'')"])
      (auto simp: startswith_def)
qed

text \<open>
  Claim C3, as stated, fails: a missing field does not only end its own checks. In
  this candidate \<open>caption\<close> is missing and \<open>alt_text\<close> has 101 characters; the one issue
  reported is the missing field, and the issue that the check of \<open>alt_text\<close> gives on
  this value is not reported.
\<close>

theorem missing_field_hides_other_violations:
  "subscript missing_caption_candidate ''instagram'' = Inr long_alt_instagram
   \<and> subscript long_alt_instagram ''caption'' = Inl (KeyError ''caption'')
   \<and> subscript long_alt_instagram ''alt_text'' = Inr (JStr (replicate 101 CHR ''a''))
   \<and> check_ig_alt_text (JStr (replicate 101 CHR ''a''))
       = Inr [''Instagram Alt Text: Exceeds 100 characters.'']
   \<and> validator_issues missing_caption_candidate
       = Inr [''A required field is missing from the AI's response: 'caption'' @ [CHR 0x27]]
   \<and> comprehensive_content_validator missing_caption_candidate
       = Inr (''Validation Failed. You MUST fix these issues:\<newline>- A required field is missing from the AI's response: 'caption'' @ [CHR 0x27])"
  by (simp add: validator_defs missing_caption_candidate_def long_alt_instagram_def getitem_def
      missing_field_issue_def string_defs check_ig_alt_text_def failed_header_def issue_sep_def)

text \<open>
  Claim C3, amended. The validator reads eight keys, in this order: \<open>instagram\<close> and,
  in its value, \<open>caption\<close>, \<open>alt_text\<close> and \<open>hashtags\<close>; then \<open>pinterest\<close> and, in its
  value, \<open>title\<close>, \<open>description\<close> and \<open>keywords\<close>. When one of them is missing from
  its dictionary and every check before that subscript has returned, the validator
  fails and the whole pass ends there: the issues of the checks before it stay, the
  issue that names the missing key (the text
  \<open>A required field is missing from the AI's response:\<close> and the \<open>repr\<close> of the key)
  comes last, and no check after it runs. The checks return on every value that is a
  string or a list of strings.
\<close>

theorem missing_field_ends_the_pass:
  "missing_field_issue k = ''A required field is missing from the AI's response: '' @ py_repr k
   \<and> (map_of d k = None \<longrightarrow> subscript (JObj d) k = Inl (KeyError k))
   \<and> (subscript c ''instagram'' = Inl (KeyError k)
        \<longrightarrow> validator_issues c = Inr [missing_field_issue k])
   \<and> (subscript c ''instagram'' = Inr ig \<and> subscript ig ''caption'' = Inl (KeyError k)
        \<longrightarrow> validator_issues c = Inr [missing_field_issue k])
   \<and> (subscript c ''instagram'' = Inr ig
        \<and> subscript ig ''caption'' = Inr caption \<and> check_caption caption = Inr i1
        \<and> subscript ig ''alt_text'' = Inl (KeyError k)
        \<longrightarrow> validator_issues c = Inr (i1 @ [missing_field_issue k]))
   \<and> (subscript c ''instagram'' = Inr ig
        \<and> subscript ig ''caption'' = Inr caption \<and> check_caption caption = Inr i1
        \<and> subscript ig ''alt_text'' = Inr alt_text \<and> check_ig_alt_text alt_text = Inr i2
        \<and> subscript ig ''hashtags'' = Inl (KeyError k)
        \<longrightarrow> validator_issues c = Inr (i1 @ i2 @ [missing_field_issue k]))
   \<and> (subscript c ''instagram'' = Inr ig
        \<and> subscript ig ''caption'' = Inr caption \<and> check_caption caption = Inr i1
        \<and> subscript ig ''alt_text'' = Inr alt_text \<and> check_ig_alt_text alt_text = Inr i2
        \<and> subscript ig ''hashtags'' = Inr hashtags \<and> check_hashtag_count hashtags = Inr i3
        \<and> check_hashtag_prefix hashtags = Inr i4
        \<and> subscript c ''pinterest'' = Inl (KeyError k)
        \<longrightarrow> validator_issues c = Inr (i1 @ i2 @ i3 @ i4 @ [missing_field_issue k]))
   \<and> (subscript c ''instagram'' = Inr ig
        \<and> subscript ig ''caption'' = Inr caption \<and> check_caption caption = Inr i1
        \<and> subscript ig ''alt_text'' = Inr alt_text \<and> check_ig_alt_text alt_text = Inr i2
        \<and> subscript ig ''hashtags'' = Inr hashtags \<and> check_hashtag_count hashtags = Inr i3
        \<and> check_hashtag_prefix hashtags = Inr i4
        \<and> subscript c ''pinterest'' = Inr pin \<and> subscript pin ''title'' = Inl (KeyError k)
        \<longrightarrow> validator_issues c = Inr (i1 @ i2 @ i3 @ i4 @ [missing_field_issue k]))
   \<and> (subscript c ''instagram'' = Inr ig
        \<and> subscript ig ''caption'' = Inr caption \<and> check_caption caption = Inr i1
        \<and> subscript ig ''alt_text'' = Inr alt_text \<and> check_ig_alt_text alt_text = Inr i2
        \<and> subscript ig ''hashtags'' = Inr hashtags \<and> check_hashtag_count hashtags = Inr i3
        \<and> check_hashtag_prefix hashtags = Inr i4
        \<and> subscript c ''pinterest'' = Inr pin
        \<and> subscript pin ''title'' = Inr title \<and> check_title title = Inr i5
        \<and> subscript pin ''description'' = Inl (KeyError k)
        \<longrightarrow> validator_issues c = Inr (i1 @ i2 @ i3 @ i4 @ i5 @ [missing_field_issue k]))
   \<and> (subscript c ''instagram'' = Inr ig
        \<and> subscript ig ''caption'' = Inr caption \<and> check_caption caption = Inr i1
        \<and> subscript ig ''alt_text'' = Inr alt_text \<and> check_ig_alt_text alt_text = Inr i2
        \<and> subscript ig ''hashtags'' = Inr hashtags \<and> check_hashtag_count hashtags = Inr i3
        \<and> check_hashtag_prefix hashtags = Inr i4
        \<and> subscript c ''pinterest'' = Inr pin
        \<and> subscript pin ''title'' = Inr title \<and> check_title title = Inr i5
        \<and> subscript pin ''description'' = Inr description
        \<and> check_description description = Inr i6
        \<and> subscript pin ''keywords'' = Inl (KeyError k)
        \<longrightarrow> validator_issues c = Inr (i1 @ i2 @ i3 @ i4 @ i5 @ i6 @ [missing_field_issue k]))
   \<and> (validator_issues c = Inr (issues @ [missing_field_issue k])
        \<longrightarrow> comprehensive_content_validator c
            = Inr (py_join issue_sep (failed_header # issues @ [missing_field_issue k])))
   \<and> (v = JStr s \<or> v = JArr (map JStr xs)
        \<longrightarrow> \<not> isl (check_caption v) \<and> \<not> isl (check_ig_alt_text v)
          \<and> \<not> isl (check_hashtag_count v) \<and> \<not> isl (check_hashtag_prefix v)
          \<and> \<not> isl (check_title v) \<and> \<not> isl (check_description v)
          \<and> \<not> isl (check_keyword_count v) \<and> \<not> isl (check_keyword_prefix v))"
proof -
  have wording: "missing_field_issue k
      = ''A required field is missing from the AI's response: '' @ py_repr k"
    by (simp add: missing_field_issue_def)
  have absent: "map_of d k = None \<longrightarrow> subscript (JObj d) k = Inl (KeyError k)"
    by (simp add: getitem_def)
  have failed: "validator_issues c = Inr (issues @ [missing_field_issue k])
      \<longrightarrow> comprehensive_content_validator c
          = Inr (py_join issue_sep (failed_header # issues @ [missing_field_issue k]))"
    by (simp add: comprehensive_content_validator_def)
  have typed: "v = JStr s \<or> v = JArr (map JStr xs)
      \<longrightarrow> \<not> isl (check_caption v) \<and> \<not> isl (check_ig_alt_text v)
        \<and> \<not> isl (check_hashtag_count v) \<and> \<not> isl (check_hashtag_prefix v)
        \<and> \<not> isl (check_title v) \<and> \<not> isl (check_description v)
        \<and> \<not> isl (check_keyword_count v) \<and> \<not> isl (check_keyword_prefix v)"
    using checks_return_on_text [of s] checks_return_on_text_list [of xs] by blast
  show ?thesis
    by (intro conjI; (rule wording | rule absent | rule failed | rule typed | simp add: validator_defs))
qed

theorem missing_field_ends_the_pass_witness:
  "validator_issues missing_alt_text_candidate
     = Inr [''Instagram Caption: Exceeds 2,200 characters.'',
            ''A required field is missing from the AI's response: 'alt_text'' @ [CHR 0x27]]"
proof -
  have a: "subscript missing_alt_text_candidate ''instagram'' = Inr no_alt_text_instagram"
    by (simp add: missing_alt_text_candidate_def getitem_def)
  have b: "subscript no_alt_text_instagram ''caption'' = Inr (JStr (replicate 2201 CHR ''a''))"
    and c: "subscript no_alt_text_instagram ''alt_text'' = Inl (KeyError ''alt_text'')"
    by (simp_all add: no_alt_text_instagram_def getitem_def)
  have d: "check_caption (JStr (replicate 2201 CHR ''a''))
      = Inr [''Instagram Caption: Exceeds 2,200 characters.'']"
    by (simp add: check_caption_def)
  have "validator_issues missing_alt_text_candidate
      = Inr ([''Instagram Caption: Exceeds 2,200 characters.''] @ [missing_field_issue ''alt_text''])"
    using missing_field_ends_the_pass
      [of "''alt_text''" "[]" missing_alt_text_candidate no_alt_text_instagram
          "JStr (replicate 2201 CHR ''a'')" "[''Instagram Caption: Exceeds 2,200 characters.'']"]
      a b c d by blast
  then show ?thesis
    by (simp add: missing_field_issue_def string_defs)
qed

text \<open>
  Claim C4, as stated, fails. In this candidate the three hashtags break both rules,
  three items where 15 to 30 are asked and two of them without \<open>#\<close>, and the pass
  reports neither issue: \<open>caption\<close>, which is read before the hashtags, is missing,
  and the one issue is the missing key.
\<close>

theorem missing_key_hides_both_list_issues:
  "subscript captionless_candidate ''instagram'' = Inr captionless_instagram
   \<and> subscript captionless_instagram ''hashtags'' = Inr three_hashtags
   \<and> check_hashtag_count three_hashtags
       = Inr [''Instagram Hashtags: Incorrect count (3). Must be 15-30.'']
   \<and> check_hashtag_prefix three_hashtags
       = Inr [''Instagram Hashtags: Missing '#' on: ['travel', 'sunset']'']
   \<and> validator_issues captionless_candidate
       = Inr [''A required field is missing from the AI's response: 'caption'' @ [CHR 0x27]]"
  by code_simp

text \<open>
  Claim C4, amended. A list whose number of items is out of range and which has items
  that break the prefix rule gives both issues in one pass, the count first and the
  prefix next to it, when the pass reaches the two checks and the validator returns:
  for the hashtags, when the keys \<open>instagram\<close>, \<open>caption\<close>, \<open>alt_text\<close> and \<open>hashtags\<close>
  are present, the checks of the caption and of the alternative text return and no
  later value makes the validator raise; for the keywords, the last list checked,
  when all eight keys are present and the six checks before return. The example of
  the claim: three hashtags of which two lack \<open>#\<close>, in a candidate that is valid
  otherwise, give exactly the two issues. The text of the count issue is that of the
  source, \<open>Instagram Hashtags: Incorrect count (3). Must be 15-30.\<close>
\<close>

theorem count_and_prefix_both_reported:
  "(subscript c ''instagram'' = Inr ig
      \<and> subscript ig ''caption'' = Inr caption \<and> check_caption caption = Inr i1
      \<and> subscript ig ''alt_text'' = Inr alt_text \<and> check_ig_alt_text alt_text = Inr i2
      \<and> subscript ig ''hashtags'' = Inr hashtags
      \<and> py_len hashtags = Inr n \<and> \<not> (15 \<le> n \<and> n \<le> 30)
      \<and> missing_hash hashtags = Inr missing \<and> missing \<noteq> []
      \<and> validator_issues c = Inr issues
      \<longrightarrow> prefix
            (i1 @ i2
               @ [''Instagram Hashtags: Incorrect count ('' @ str_nat n @ ''). Must be 15-30.'',
                  ''Instagram Hashtags: Missing '#' on: '' @ py_repr_list (take 3 missing)])
            issues)
   \<and> (subscript c ''instagram'' = Inr ig
      \<and> subscript ig ''caption'' = Inr caption \<and> check_caption caption = Inr i1
      \<and> subscript ig ''alt_text'' = Inr alt_text \<and> check_ig_alt_text alt_text = Inr i2
      \<and> subscript ig ''hashtags'' = Inr hashtags \<and> check_hashtag_count hashtags = Inr i3
      \<and> check_hashtag_prefix hashtags = Inr i4
      \<and> subscript c ''pinterest'' = Inr pin
      \<and> subscript pin ''title'' = Inr title \<and> check_title title = Inr i5
      \<and> subscript pin ''description'' = Inr description
      \<and> check_description description = Inr i6
      \<and> subscript pin ''keywords'' = Inr keywords
      \<and> py_len keywords = Inr n \<and> \<not> (15 \<le> n \<and> n \<le> 20)
      \<and> has_hash keywords = Inr found \<and> found \<noteq> []
      \<longrightarrow> validator_issues c
          = Inr (i1 @ i2 @ i3 @ i4 @ i5 @ i6
               @ [''Pinterest Keywords: Incorrect count ('' @ str_nat n @ ''). Must be 15-20.'',
                  ''Pinterest Keywords: Should not have '#': '' @ py_repr_list (take 3 found)]))
   \<and> validator_issues three_hashtags_candidate
       = Inr [''Instagram Hashtags: Incorrect count (3). Must be 15-30.'',
              ''Instagram Hashtags: Missing '#' on: ['travel', 'sunset']'']
   \<and> comprehensive_content_validator three_hashtags_candidate
       = Inr ''Validation Failed. You MUST fix these issues:\<newline>- Instagram Hashtags: Incorrect count (3). Must be 15-30.\<newline>- Instagram Hashtags: Missing '#' on: ['travel', 'sunset']''"
proof -
  have hashtag_part: "subscript c ''instagram'' = Inr ig
      \<and> subscript ig ''caption'' = Inr caption \<and> check_caption caption = Inr i1
      \<and> subscript ig ''alt_text'' = Inr alt_text \<and> check_ig_alt_text alt_text = Inr i2
      \<and> subscript ig ''hashtags'' = Inr hashtags
      \<and> py_len hashtags = Inr n \<and> \<not> (15 \<le> n \<and> n \<le> 30)
      \<and> missing_hash hashtags = Inr missing \<and> missing \<noteq> []
      \<and> validator_issues c = Inr issues
      \<longrightarrow> prefix
            (i1 @ i2
               @ [''Instagram Hashtags: Incorrect count ('' @ str_nat n @ ''). Must be 15-30.'',
                  ''Instagram Hashtags: Missing '#' on: '' @ py_repr_list (take 3 missing)])
            issues"
  proof
    let ?both = "i1 @ i2
        @ [''Instagram Hashtags: Incorrect count ('' @ str_nat n @ ''). Must be 15-30.'',
           ''Instagram Hashtags: Missing '#' on: '' @ py_repr_list (take 3 missing)]"
    assume h: "subscript c ''instagram'' = Inr ig
      \<and> subscript ig ''caption'' = Inr caption \<and> check_caption caption = Inr i1
      \<and> subscript ig ''alt_text'' = Inr alt_text \<and> check_ig_alt_text alt_text = Inr i2
      \<and> subscript ig ''hashtags'' = Inr hashtags
      \<and> py_len hashtags = Inr n \<and> \<not> (15 \<le> n \<and> n \<le> 30)
      \<and> missing_hash hashtags = Inr missing \<and> missing \<noteq> []
      \<and> validator_issues c = Inr issues"
    then have "try_body c = pinterest_body c ?both"
      by (simp add: try_body_def check_hashtag_count_def check_hashtag_prefix_def)
    then have "prefix ?both (fst (try_body c))"
      using pinterest_body_prefix [of ?both c] by simp
    moreover have "prefix (fst (try_body c)) issues"
      using h validator_issues_prefix by blast
    ultimately show "prefix ?both issues"
      by (rule prefix_order.trans)
  qed
  have keyword_part: "subscript c ''instagram'' = Inr ig
      \<and> subscript ig ''caption'' = Inr caption \<and> check_caption caption = Inr i1
      \<and> subscript ig ''alt_text'' = Inr alt_text \<and> check_ig_alt_text alt_text = Inr i2
      \<and> subscript ig ''hashtags'' = Inr hashtags \<and> check_hashtag_count hashtags = Inr i3
      \<and> check_hashtag_prefix hashtags = Inr i4
      \<and> subscript c ''pinterest'' = Inr pin
      \<and> subscript pin ''title'' = Inr title \<and> check_title title = Inr i5
      \<and> subscript pin ''description'' = Inr description
      \<and> check_description description = Inr i6
      \<and> subscript pin ''keywords'' = Inr keywords
      \<and> py_len keywords = Inr n \<and> \<not> (15 \<le> n \<and> n \<le> 20)
      \<and> has_hash keywords = Inr found \<and> found \<noteq> []
      \<longrightarrow> validator_issues c
          = Inr (i1 @ i2 @ i3 @ i4 @ i5 @ i6
               @ [''Pinterest Keywords: Incorrect count ('' @ str_nat n @ ''). Must be 15-20.'',
                  ''Pinterest Keywords: Should not have '#': '' @ py_repr_list (take 3 found)])"
    by (simp add: validator_defs check_keyword_count_def check_keyword_prefix_def)
  have example: "validator_issues three_hashtags_candidate
       = Inr [''Instagram Hashtags: Incorrect count (3). Must be 15-30.'',
              ''Instagram Hashtags: Missing '#' on: ['travel', 'sunset']'']"
    by code_simp
  have feedback: "comprehensive_content_validator three_hashtags_candidate
       = Inr ''Validation Failed. You MUST fix these issues:\<newline>- Instagram Hashtags: Incorrect count (3). Must be 15-30.\<newline>- Instagram Hashtags: Missing '#' on: ['travel', 'sunset']''"
    by (simp add: comprehensive_content_validator_def example failed_header_def issue_sep_def
        newline_def)
  show ?thesis
    by (intro conjI) (rule hashtag_part, rule keyword_part, rule example, rule feedback)
qed

theorem count_and_prefix_both_reported_witness:
  "\<exists>issues. validator_issues three_hashtags_candidate = Inr issues
     \<and> prefix
          [''Instagram Hashtags: Incorrect count (3). Must be 15-30.'',
           ''Instagram Hashtags: Missing '#' on: ['travel', 'sunset']'']
          issues"
proof -
  let ?caption = "JStr ''A very long caption...''"
  let ?alt = "JStr ''A beautiful sunset over the ocean with palm trees.''"
  define issues where "issues = [''Instagram Hashtags: Incorrect count (3). Must be 15-30.'',
      ''Instagram Hashtags: Missing '#' on: ['travel', 'sunset']'']"
  have v: "validator_issues three_hashtags_candidate = Inr issues"
    unfolding issues_def by code_simp
  have a: "subscript three_hashtags_candidate ''instagram'' = Inr three_hashtags_instagram"
    by (simp add: three_hashtags_candidate_def getitem_def)
  have b: "subscript three_hashtags_instagram ''caption'' = Inr ?caption"
      "subscript three_hashtags_instagram ''alt_text'' = Inr ?alt"
      "subscript three_hashtags_instagram ''hashtags'' = Inr three_hashtags"
    by (simp_all add: three_hashtags_instagram_def getitem_def)
  have c: "check_caption ?caption = Inr []" "check_ig_alt_text ?alt = Inr []"
    by (simp_all add: check_caption_def check_ig_alt_text_def)
  have l: "py_len three_hashtags = Inr 3"
    by (simp add: three_hashtags_def)
  have m: "missing_hash three_hashtags = Inr [''travel'', ''sunset'']"
    by (simp add: missing_hash_def three_hashtags_def startswith_def)
  have n: "str_nat 3 = ''3''"
    by code_simp
  have "prefix
          ([] @ []
             @ [''Instagram Hashtags: Incorrect count ('' @ str_nat 3 @ ''). Must be 15-30.'',
                ''Instagram Hashtags: Missing '#' on: ''
                  @ py_repr_list (take 3 [''travel'', ''sunset''])])
          issues"
    by (rule count_and_prefix_both_reported
      [of three_hashtags_candidate three_hashtags_instagram ?caption "[]" ?alt "[]"
          three_hashtags 3 "[''travel'', ''sunset'']" issues,
        THEN conjunct1, THEN mp])
      (simp add: a b c l m v)
  then have "prefix
          [''Instagram Hashtags: Incorrect count (3). Must be 15-30.'',
           ''Instagram Hashtags: Missing '#' on: ['travel', 'sunset']'']
          issues"
    by (simp only: n) (simp add: string_defs)
  then show ?thesis
    using v by blast
qed

text \<open>
  Claim C7, as stated, fails in its second half. In this candidate five hashtags lack
  \<open>#\<close> and two keywords have one, and the pass does not accumulate both issue types:
  \<open>title\<close>, which is read between the two lists, is missing, the pass ends there, and
  the issue of the keywords is not reported.
\<close>

theorem missing_key_stops_accumulation:
  "subscript untitled_candidate ''pinterest'' = Inr untitled_pinterest
   \<and> subscript untitled_pinterest ''title'' = Inl (KeyError ''title'')
   \<and> subscript untitled_pinterest ''keywords'' = Inr marked_keywords
   \<and> check_keyword_prefix marked_keywords
       = Inr [''Pinterest Keywords: Should not have '#': ['#travel', '#sunset']'']
   \<and> validator_issues untitled_candidate
       = Inr [''Instagram Hashtags: Missing '#' on: ['ocean', 'dusk', 'travel']'',
              ''A required field is missing from the AI's response: 'title'' @ [CHR 0x27]]"
  by code_simp

text \<open>
  Claim C7, amended. The issue of a prefix rule names at most three offending items:
  it is built from the items of the list that break the rule, in their order, and
  quotes the first three of them at most. An issue found by one check ends neither
  the pass nor the check of another rule when all eight keys that the validator reads
  are present and every value read has a length and, for the two lists, items that
  are strings: the issue list is then the concatenation of what the eight checks
  give, in the order of the source. What a missing key does to the pass is the matter
  of claim C3.
\<close>

theorem prefix_issue_names_at_most_three:
  "(subscript c ''instagram'' = Inr ig \<and> subscript ig ''caption'' = Inr caption
      \<and> subscript ig ''alt_text'' = Inr alt_text \<and> subscript ig ''hashtags'' = Inr hashtags
      \<and> subscript c ''pinterest'' = Inr pin \<and> subscript pin ''title'' = Inr title
      \<and> subscript pin ''description'' = Inr description
      \<and> subscript pin ''keywords'' = Inr keywords
      \<and> py_len caption = Inr n1 \<and> py_len alt_text = Inr n2 \<and> py_len hashtags = Inr n3
      \<and> missing_hash hashtags = Inr missing
      \<and> py_len title = Inr n5 \<and> py_len description = Inr n6 \<and> py_len keywords = Inr n7
      \<and> has_hash keywords = Inr found
      \<longrightarrow> validator_issues c
          = Inr ((if 2200 < n1 then [''Instagram Caption: Exceeds 2,200 characters.''] else [])
               @ (if 100 < n2 then [''Instagram Alt Text: Exceeds 100 characters.''] else [])
               @ (if 15 \<le> n3 \<and> n3 \<le> 30 then []
                  else [''Instagram Hashtags: Incorrect count ('' @ str_nat n3
                          @ ''). Must be 15-30.''])
               @ (if missing = [] then []
                  else [''Instagram Hashtags: Missing '#' on: ''
                          @ py_repr_list (take 3 missing)])
               @ (if 100 < n5 then [''Pinterest Title: Exceeds 100 characters.''] else [])
               @ (if 500 < n6 then [''Pinterest Description: Exceeds 500 characters.''] else [])
               @ (if 15 \<le> n7 \<and> n7 \<le> 20 then []
                  else [''Pinterest Keywords: Incorrect count ('' @ str_nat n7
                          @ ''). Must be 15-20.''])
               @ (if found = [] then []
                  else [''Pinterest Keywords: Should not have '#': ''
                          @ py_repr_list (take 3 found)])))
   \<and> (py_iter v = Inr (map JStr xs)
        \<longrightarrow> missing_hash v = Inr (filter (\<lambda>h. \<not> prefix ''#'' h) xs)
          \<and> has_hash v = Inr (filter (\<lambda>k. prefix ''#'' k) xs))
   \<and> (check_hashtag_prefix v = Inr [issue]
        \<longrightarrow> (\<exists>missing named. missing_hash v = Inr missing \<and> prefix named missing
               \<and> named \<noteq> [] \<and> length named \<le> 3 \<and> (length missing \<le> 3 \<longrightarrow> named = missing)
               \<and> issue = ''Instagram Hashtags: Missing '#' on: '' @ py_repr_list named))
   \<and> (check_keyword_prefix v = Inr [issue]
        \<longrightarrow> (\<exists>found named. has_hash v = Inr found \<and> prefix named found
               \<and> named \<noteq> [] \<and> length named \<le> 3 \<and> (length found \<le> 3 \<longrightarrow> named = found)
               \<and> issue = ''Pinterest Keywords: Should not have '#': '' @ py_repr_list named))"
proof -
  have all_checks: "subscript c ''instagram'' = Inr ig \<and> subscript ig ''caption'' = Inr caption
      \<and> subscript ig ''alt_text'' = Inr alt_text \<and> subscript ig ''hashtags'' = Inr hashtags
      \<and> subscript c ''pinterest'' = Inr pin \<and> subscript pin ''title'' = Inr title
      \<and> subscript pin ''description'' = Inr description
      \<and> subscript pin ''keywords'' = Inr keywords
      \<and> py_len caption = Inr n1 \<and> py_len alt_text = Inr n2 \<and> py_len hashtags = Inr n3
      \<and> missing_hash hashtags = Inr missing
      \<and> py_len title = Inr n5 \<and> py_len description = Inr n6 \<and> py_len keywords = Inr n7
      \<and> has_hash keywords = Inr found
      \<longrightarrow> validator_issues c
          = Inr ((if 2200 < n1 then [''Instagram Caption: Exceeds 2,200 characters.''] else [])
               @ (if 100 < n2 then [''Instagram Alt Text: Exceeds 100 characters.''] else [])
               @ (if 15 \<le> n3 \<and> n3 \<le> 30 then []
                  else [''Instagram Hashtags: Incorrect count ('' @ str_nat n3
                          @ ''). Must be 15-30.''])
               @ (if missing = [] then []
                  else [''Instagram Hashtags: Missing '#' on: ''
                          @ py_repr_list (take 3 missing)])
               @ (if 100 < n5 then [''Pinterest Title: Exceeds 100 characters.''] else [])
               @ (if 500 < n6 then [''Pinterest Description: Exceeds 500 characters.''] else [])
               @ (if 15 \<le> n7 \<and> n7 \<le> 20 then []
                  else [''Pinterest Keywords: Incorrect count ('' @ str_nat n7
                          @ ''). Must be 15-20.''])
               @ (if found = [] then []
                  else [''Pinterest Keywords: Should not have '#': ''
                          @ py_repr_list (take 3 found)]))"
    by (simp add: validator_defs check_defs)
  have offenders: "py_iter v = Inr (map JStr xs)
      \<longrightarrow> missing_hash v = Inr (filter (\<lambda>h. \<not> prefix ''#'' h) xs)
        \<and> has_hash v = Inr (filter (\<lambda>k. prefix ''#'' k) xs)"
    by (simp add: missing_hash_def has_hash_def items_where_strings startswith_def)
  have named: "prefix (take 3 ys) ys \<and> (ys \<noteq> [] \<longrightarrow> take 3 ys \<noteq> []) \<and> length (take 3 ys) \<le> 3
      \<and> (length ys \<le> 3 \<longrightarrow> take 3 ys = ys)" for ys :: "string list"
    by (simp add: take_is_prefix)
  have hashtag_part: "check_hashtag_prefix v = Inr [issue]
      \<longrightarrow> (\<exists>missing named. missing_hash v = Inr missing \<and> prefix named missing
             \<and> named \<noteq> [] \<and> length named \<le> 3 \<and> (length missing \<le> 3 \<longrightarrow> named = missing)
             \<and> issue = ''Instagram Hashtags: Missing '#' on: '' @ py_repr_list named)"
  proof
    assume "check_hashtag_prefix v = Inr [issue]"
    then obtain missing where m: "missing_hash v = Inr missing" "missing \<noteq> []"
        "issue = ''Instagram Hashtags: Missing '#' on: '' @ py_repr_list (take 3 missing)"
      by (auto simp: check_hashtag_prefix_def split: sum.splits if_splits)
    then show "\<exists>missing named. missing_hash v = Inr missing \<and> prefix named missing
        \<and> named \<noteq> [] \<and> length named \<le> 3 \<and> (length missing \<le> 3 \<longrightarrow> named = missing)
        \<and> issue = ''Instagram Hashtags: Missing '#' on: '' @ py_repr_list named"
      using named [of missing] by blast
  qed
  have keyword_part: "check_keyword_prefix v = Inr [issue]
      \<longrightarrow> (\<exists>found named. has_hash v = Inr found \<and> prefix named found
             \<and> named \<noteq> [] \<and> length named \<le> 3 \<and> (length found \<le> 3 \<longrightarrow> named = found)
             \<and> issue = ''Pinterest Keywords: Should not have '#': '' @ py_repr_list named)"
  proof
    assume "check_keyword_prefix v = Inr [issue]"
    then obtain found where m: "has_hash v = Inr found" "found \<noteq> []"
        "issue = ''Pinterest Keywords: Should not have '#': '' @ py_repr_list (take 3 found)"
      by (auto simp: check_keyword_prefix_def split: sum.splits if_splits)
    then show "\<exists>found named. has_hash v = Inr found \<and> prefix named found
        \<and> named \<noteq> [] \<and> length named \<le> 3 \<and> (length found \<le> 3 \<longrightarrow> named = found)
        \<and> issue = ''Pinterest Keywords: Should not have '#': '' @ py_repr_list named"
      using named [of found] by blast
  qed
  show ?thesis
    by (intro conjI) (rule all_checks, rule offenders, rule hashtag_part, rule keyword_part)
qed

theorem prefix_issue_names_at_most_three_witness:
  "validator_issues offenders_candidate
     = Inr [''Instagram Hashtags: Missing '#' on: ['ocean', 'dusk', 'travel']'',
            ''Pinterest Keywords: Should not have '#': ['#travel', '#sunset']'']"
proof -
  let ?caption = "JStr ''Chasing the last light of the day.''"
  let ?alt = "JStr ''Vibrant orange and pink sunset over a calm ocean.''"
  let ?title = "JStr ''A beautiful sunset''"
  let ?description = "JStr ''Just a photo.''"
  let ?missing = "[''ocean'', ''dusk'', ''travel'', ''beach'', ''sky'']"
  let ?found = "[''#travel'', ''#sunset'']"
  have a: "subscript offenders_candidate ''instagram'' = Inr five_offenders_instagram"
      "subscript offenders_candidate ''pinterest'' = Inr two_offenders_pinterest"
    by (simp_all add: offenders_candidate_def getitem_def)
  have b: "subscript five_offenders_instagram ''caption'' = Inr ?caption"
      "subscript five_offenders_instagram ''alt_text'' = Inr ?alt"
      "subscript five_offenders_instagram ''hashtags'' = Inr twenty_hashtags"
    by (simp_all add: five_offenders_instagram_def getitem_def)
  have d: "subscript two_offenders_pinterest ''title'' = Inr ?title"
      "subscript two_offenders_pinterest ''description'' = Inr ?description"
      "subscript two_offenders_pinterest ''keywords'' = Inr marked_keywords"
    by (simp_all add: two_offenders_pinterest_def getitem_def)
  have l: "py_len ?caption = Inr 34" "py_len ?alt = Inr 49" "py_len twenty_hashtags = Inr 20"
      "py_len ?title = Inr 18" "py_len ?description = Inr 13" "py_len marked_keywords = Inr 16"
    by (simp_all add: marked_keywords_def twenty_hashtags_def)
  have m: "missing_hash twenty_hashtags = Inr ?missing"
    by code_simp
  have f: "has_hash marked_keywords = Inr ?found"
    by code_simp
  have e: "py_repr_list (take 3 ?missing) = ''['ocean', 'dusk', 'travel']''"
      "py_repr_list (take 3 ?found) = ''['#travel', '#sunset']''"
    by code_simp+
  have "validator_issues offenders_candidate
      = Inr ((if 2200 < (34::nat) then [''Instagram Caption: Exceeds 2,200 characters.''] else [])
           @ (if 100 < (49::nat) then [''Instagram Alt Text: Exceeds 100 characters.''] else [])
           @ (if 15 \<le> (20::nat) \<and> (20::nat) \<le> 30 then []
              else [''Instagram Hashtags: Incorrect count ('' @ str_nat 20
                      @ ''). Must be 15-30.''])
           @ (if ?missing = [] then []
              else [''Instagram Hashtags: Missing '#' on: ''
                      @ py_repr_list (take 3 ?missing)])
           @ (if 100 < (18::nat) then [''Pinterest Title: Exceeds 100 characters.''] else [])
           @ (if 500 < (13::nat) then [''Pinterest Description: Exceeds 500 characters.''] else [])
           @ (if 15 \<le> (16::nat) \<and> (16::nat) \<le> 20 then []
              else [''Pinterest Keywords: Incorrect count ('' @ str_nat 16
                      @ ''). Must be 15-20.''])
           @ (if ?found = [] then []
              else [''Pinterest Keywords: Should not have '#': ''
                      @ py_repr_list (take 3 ?found)]))"
    by (rule prefix_issue_names_at_most_three
      [of offenders_candidate five_offenders_instagram ?caption ?alt twenty_hashtags
          two_offenders_pinterest ?title ?description marked_keywords
          34 49 20 ?missing 18 13 16 ?found,
        THEN conjunct1, THEN mp])
      (simp add: a b d l m f)
  then show ?thesis
    by (simp only: e) simp
qed

section \<open>Results on the feedback formatter\<close>

lemma failed_header_facts:
  "failed_header \<noteq> []" "newline \<notin> set failed_header" "hd failed_header = CHR ''V''"
  by (simp_all add: failed_header_def newline_def)

lemma no_header_in_marked_issue:
  assumes "plain_issue x"
  shows "\<not> sublist failed_header (issue_sep @ x)"
proof -
  have "\<not> prefix failed_header (c # s)" if "c \<noteq> CHR ''V''" for c s
    using that by (simp add: failed_header_def)
  then show ?thesis
    using assms
    by (simp add: issue_sep_def newline_def plain_issue_def py_in_sublist sublist_Cons_right)
qed

lemma no_header_in_lines:
  assumes "\<forall>x \<in> set xs. plain_issue x"
  shows "\<not> sublist failed_header (concat (map ((@) issue_sep) xs))"
  using assms
proof (induction xs)
  case Nil
  then show ?case
    by (simp add: failed_header_facts)
next
  case (Cons x xs)
  let ?rest = "concat (map ((@) issue_sep) xs)"
  show ?case
  proof (cases xs)
    case Nil
    then show ?thesis
      using no_header_in_marked_issue [of x] Cons.prems by simp
  next
    case (Cons y ys)
    then obtain b where b: "?rest = newline # b"
      by (simp add: issue_sep_def)
    have "\<not> sublist failed_header ?rest"
      using Cons.IH Cons.prems by simp
    then have "\<not> sublist failed_header b"
      unfolding b by (simp add: sublist_Cons_right)
    moreover have "sublist failed_header ((issue_sep @ x) @ newline # b)
        \<longleftrightarrow> sublist failed_header (issue_sep @ x) \<or> sublist failed_header b"
      by (rule sublist_across_char) (simp_all add: failed_header_facts)
    ultimately show ?thesis
      using no_header_in_marked_issue [of x] Cons.prems b by simp
  qed
qed

lemma last_of_lines:
  assumes "xs \<noteq> []" and "\<forall>x \<in> set xs. x \<noteq> []"
  shows "last (concat (map ((@) issue_sep) xs)) = last (last xs)"
  using assms
proof (induction xs)
  case Nil
  then show ?case by simp
next
  case (Cons x xs)
  show ?case
  proof (cases xs)
    case Nil
    then show ?thesis
      using Cons.prems by simp
  next
    case (Cons y ys)
    then have "concat (map ((@) issue_sep) xs) \<noteq> []"
      by (simp add: issue_sep_def)
    then show ?thesis
      using Cons.IH Cons.prems Cons by simp
  qed
qed

text \<open>What is left of the validator's text after \<open>replace\<close> and \<open>strip\<close>, and its pieces.\<close>

lemma stripped_feedback:
  assumes "\<forall>x \<in> set (x # xs). plain_issue x"
  shows "py_strip (py_replace failed_header [] (py_join issue_sep (failed_header # x # xs)))
    = ''- '' @ x @ concat (map ((@) issue_sep) xs)"
proof -
  let ?lines = "concat (map ((@) issue_sep) (x # xs))"
  let ?t = "''- '' @ x @ concat (map ((@) issue_sep) xs)"
  have "\<not> py_in failed_header ?lines"
    using no_header_in_lines [OF assms] by (simp add: py_in_sublist)
  then have "py_replace failed_header [] ?lines = ?lines"
    using py_replace_no_occurrence [OF failed_header_facts(1)] by blast
  then have r: "py_replace failed_header [] (py_join issue_sep (failed_header # x # xs)) = ?lines"
    by (simp only: py_join_lines py_replace_at_occurrence [OF failed_header_facts(1)] append_Nil)
  have l: "?lines = newline # ?t"
    by (simp add: issue_sep_def)
  have "last ?lines = last (last (x # xs))"
    by (rule last_of_lines) (use assms in \<open>auto simp: plain_issue_def\<close>)
  then have "last ?t = last (last (x # xs))"
    unfolding l by simp
  moreover have "\<not> py_isspace (last (last (x # xs)))"
    using assms last_in_set [of "x # xs"] by (auto simp: plain_issue_def simp del: last.simps)
  ultimately have e: "\<not> py_isspace (last ?t)"
    by simp
  have "dropWhile py_isspace ?lines = ?t"
    unfolding l by (simp add: py_isspace_def newline_def)
  then have "py_strip ?lines = rev (dropWhile py_isspace (rev ?t))"
    by (simp only: py_strip_def)
  also have "\<dots> = ?t"
    by (rule strip_right_id) (use e in simp_all)
  finally show ?thesis
    using r by simp
qed

lemma pieces_of_feedback:
  assumes "\<forall>x \<in> set (x # xs). plain_issue x"
  shows "py_split (''- '' @ x @ concat (map ((@) issue_sep) xs)) issue_sep = (''- '' @ x) # xs"
proof -
  have n: "newline \<notin> set (''- '' @ x)" "\<forall>y \<in> set xs. newline \<notin> set y"
    using assms by (auto simp: plain_issue_def newline_def)
  have "split_from issue_sep [] ((''- '' @ x) @ concat (map ((@) issue_sep) xs))
      = split_from issue_sep (rev (''- '' @ x) @ []) (concat (map ((@) issue_sep) xs))"
    by (rule split_from_piece) (rule n(1))
  also have "\<dots> = rev (rev (''- '' @ x) @ []) # xs"
    by (rule split_from_lines) (rule n(2))
  finally show ?thesis
    by (simp add: py_split_def)
qed

lemma valid_issues_of_feedback:
  assumes "\<forall>x \<in> set (x # xs). plain_issue x"
  shows "map py_strip (filter (\<lambda>issue. py_strip issue \<noteq> []) ((''- '' @ x) # xs)) = (''- '' @ x) # xs"
proof -
  have "py_strip y = y \<and> y \<noteq> []" if "y \<in> set ((''- '' @ x) # xs)" for y
  proof (cases "y = ''- '' @ x")
    case True
    have "last (''- '' @ x) = last x" "\<not> py_isspace (last x)"
      using assms by (simp_all add: plain_issue_def)
    then show ?thesis
      using True by (simp add: py_strip_id py_isspace_def)
  next
    case False
    then have "plain_issue y"
      using that assms by auto
    then show ?thesis
      by (simp add: plain_issue_def py_strip_id)
  qed
  then have "filter (\<lambda>issue. py_strip issue \<noteq> []) ((''- '' @ x) # xs) = (''- '' @ x) # xs"
      and "map py_strip ((''- '' @ x) # xs) = (''- '' @ x) # xs"
    by (simp_all add: filter_id_conv map_idI)
  then show ?thesis
    by simp
qed

text \<open>
  Claim C6. The formatter is a function of the text it is given and reads nothing
  else, so the same issues give the same block. A validation that passed (the text
  \<open>Validation Passed\<close>), an empty text and the header with no issue after it give the
  empty string. For the text the validator builds from a list of issues that are plain
  (not empty, no line feed, no white space at either end, the header not among their
  characters) the block has one line per issue, in the order of the list, line number
  \<open>k\<close> starting with the number \<open>k\<close> counted from 1, a dot and a space. The first
  issue keeps the mark \<open>- \<close> of the validator's list in front of it, because \<open>strip\<close>
  takes away only the line feed before it.
\<close>

theorem feedback_numbered_in_input_order:
  "format_feedback_for_prompt ''Validation Passed'' = []
   \<and> format_feedback_for_prompt [] = []
   \<and> format_feedback_for_prompt failed_header = []
   \<and> (validator_issues c = Inr []
        \<longrightarrow> (\<exists>feedback. comprehensive_content_validator c = Inr feedback
               \<and> format_feedback_for_prompt feedback = []))
   \<and> ((\<forall>issue \<in> set (x # xs). plain_issue issue)
        \<longrightarrow> format_feedback_for_prompt (py_join issue_sep (failed_header # x # xs))
          = ''<PREVIOUS_ATTEMPT_FEEDBACK>\<newline>You MUST fix the following errors from your last attempt:\<newline>''
            @ py_join [newline]
                (map (\<lambda>(i, issue). str_nat (i + 1) @ ''. '' @ issue)
                   (enumerate 0 ((''- '' @ x) # xs)))
            @ ''\<newline></PREVIOUS_ATTEMPT_FEEDBACK>'')"
proof -
  have passed: "format_feedback_for_prompt ''Validation Passed'' = []"
    by (simp add: format_feedback_for_prompt_def)
  have empty: "format_feedback_for_prompt [] = []"
    by (simp add: format_feedback_for_prompt_def)
  have header: "format_feedback_for_prompt failed_header = []"
    by code_simp
  have no_issue: "validator_issues c = Inr []
      \<longrightarrow> (\<exists>feedback. comprehensive_content_validator c = Inr feedback
             \<and> format_feedback_for_prompt feedback = [])"
    using passed by (simp add: comprehensive_content_validator_def)
  have numbered: "(\<forall>issue \<in> set (x # xs). plain_issue issue)
      \<longrightarrow> format_feedback_for_prompt (py_join issue_sep (failed_header # x # xs))
        = ''<PREVIOUS_ATTEMPT_FEEDBACK>\<newline>You MUST fix the following errors from your last attempt:\<newline>''
          @ py_join [newline]
              (map (\<lambda>(i, issue). str_nat (i + 1) @ ''. '' @ issue)
                 (enumerate 0 ((''- '' @ x) # xs)))
          @ ''\<newline></PREVIOUS_ATTEMPT_FEEDBACK>''"
  proof
    assume plain: "\<forall>issue \<in> set (x # xs). plain_issue issue"
    let ?feedback = "py_join issue_sep (failed_header # x # xs)"
    have f: "py_in ''Failed'' ?feedback"
      by (simp only: py_join_lines py_in_failed_header)
    have "py_split (py_strip (py_replace failed_header [] ?feedback)) issue_sep = (''- '' @ x) # xs"
      by (simp only: stripped_feedback [OF plain] pieces_of_feedback [OF plain])
    then have "map py_strip (filter (\<lambda>issue. py_strip issue \<noteq> [])
          (py_split (py_strip (py_replace failed_header [] ?feedback)) issue_sep))
        = (''- '' @ x) # xs"
      by (simp only: valid_issues_of_feedback [OF plain])
    then show "format_feedback_for_prompt ?feedback
        = ''<PREVIOUS_ATTEMPT_FEEDBACK>\<newline>You MUST fix the following errors from your last attempt:\<newline>''
          @ py_join [newline]
              (map (\<lambda>(i, issue). str_nat (i + 1) @ ''. '' @ issue)
                 (enumerate 0 ((''- '' @ x) # xs)))
          @ ''\<newline></PREVIOUS_ATTEMPT_FEEDBACK>''"
      using f unfolding format_feedback_for_prompt_def Let_def by simp
  qed
  show ?thesis
    by (intro conjI) (rule passed, rule empty, rule header, rule no_issue, rule numbered)
qed

theorem feedback_numbered_in_input_order_witness:
  "format_feedback_for_prompt
     ''Validation Failed. You MUST fix these issues:\<newline>- Instagram Hashtags: Incorrect count (3). Must be 15-30.\<newline>- Instagram Hashtags: Missing '#' on: ['travel', 'sunset']''
   = ''<PREVIOUS_ATTEMPT_FEEDBACK>\<newline>You MUST fix the following errors from your last attempt:\<newline>1. - Instagram Hashtags: Incorrect count (3). Must be 15-30.\<newline>2. Instagram Hashtags: Missing '#' on: ['travel', 'sunset']\<newline></PREVIOUS_ATTEMPT_FEEDBACK>''
   \<and> (\<exists>feedback. comprehensive_content_validator example_of_success = Inr feedback
         \<and> format_feedback_for_prompt feedback = [])"
proof -
  have v: "validator_issues example_of_success = Inr []"
    by code_simp
  have passed: "\<exists>feedback. comprehensive_content_validator example_of_success = Inr feedback
      \<and> format_feedback_for_prompt feedback = []"
    using feedback_numbered_in_input_order [of example_of_success "[]" "[]"] v by blast
  let ?count = "''Instagram Hashtags: Incorrect count (3). Must be 15-30.''"
  let ?prefix = "''Instagram Hashtags: Missing '#' on: ['travel', 'sunset']''"
  have p: "\<forall>issue \<in> set [?count, ?prefix]. plain_issue issue"
    by (simp add: plain_issue_def newline_def py_isspace_def failed_header_def)
  have j: "py_join issue_sep [failed_header, ?count, ?prefix]
      = ''Validation Failed. You MUST fix these issues:\<newline>- Instagram Hashtags: Incorrect count (3). Must be 15-30.\<newline>- Instagram Hashtags: Missing '#' on: ['travel', 'sunset']''"
    by (simp add: failed_header_def issue_sep_def newline_def)
  have n: "py_join [newline]
        (map (\<lambda>(i, issue). str_nat (i + 1) @ ''. '' @ issue)
           (enumerate 0 [''- '' @ ?count, ?prefix]))
      = ''1. - Instagram Hashtags: Incorrect count (3). Must be 15-30.\<newline>2. Instagram Hashtags: Missing '#' on: ['travel', 'sunset']''"
    by code_simp
  have "format_feedback_for_prompt (py_join issue_sep [failed_header, ?count, ?prefix])
      = ''<PREVIOUS_ATTEMPT_FEEDBACK>\<newline>You MUST fix the following errors from your last attempt:\<newline>''
        @ py_join [newline]
            (map (\<lambda>(i, issue). str_nat (i + 1) @ ''. '' @ issue)
               (enumerate 0 [''- '' @ ?count, ?prefix]))
        @ ''\<newline></PREVIOUS_ATTEMPT_FEEDBACK>''"
    using feedback_numbered_in_input_order [of example_of_success ?count "[?prefix]"] p by blast
  then have "format_feedback_for_prompt
     ''Validation Failed. You MUST fix these issues:\<newline>- Instagram Hashtags: Incorrect count (3). Must be 15-30.\<newline>- Instagram Hashtags: Missing '#' on: ['travel', 'sunset']''
   = ''<PREVIOUS_ATTEMPT_FEEDBACK>\<newline>You MUST fix the following errors from your last attempt:\<newline>1. - Instagram Hashtags: Incorrect count (3). Must be 15-30.\<newline>2. Instagram Hashtags: Missing '#' on: ['travel', 'sunset']\<newline></PREVIOUS_ATTEMPT_FEEDBACK>''"
    by (simp only: j n) simp
  then show ?thesis
    using passed by (rule conjI)
qed

section \<open>Results on the active generation path\<close>

lemma getitem_cases:
  "getitem d k = Inl (KeyError k) \<and> k \<notin> fst ` set d
   \<or> (\<exists>v. getitem d k = Inr v \<and> (k, v) \<in> set d)"
  by (auto simp: getitem_def map_of_eq_None_iff dest: map_of_SomeD split: option.splits)

lemma getitem_known:
  assumes "k \<in> fst ` set d"
  shows "\<exists>v. getitem d k = Inr v"
  using assms getitem_cases [of d k] by auto

lemma setitem_fresh:
  "k \<notin> fst ` set d \<Longrightarrow> setitem d k v = d @ [(k, v)]"
  by (induction d) auto

lemma result_of_cong:
  "session.image_base64 ss' = session.image_base64 ss \<Longrightarrow> business_context ss' = business_context ss
    \<Longrightarrow> result_of e ss' = result_of e ss \<and> events_of e ss' = events_of e ss"
  by (auto simp: result_of_def events_of_def fun_eq_iff)

lemma result_of_update [simp]:
  "result_of e (ss\<lparr>generated_content := g\<rparr>) = result_of e ss"
  "result_of e (ss\<lparr>platforms_selected := p\<rparr>) = result_of e ss"
  "events_of e (ss\<lparr>generated_content := g\<rparr>) = events_of e ss"
  "events_of e (ss\<lparr>platforms_selected := p\<rparr>) = events_of e ss"
  by (simp_all add: result_of_def events_of_def fun_eq_iff)

lemma generate_loop_result:
  assumes "set ks \<subseteq> fst ` set PLATFORM_CONFIG"
    and "distinct ks"
    and "set ks \<inter> fst ` set (generated_content ss) = {}"
  shows "generate_loop e ks (ss, log)
    = Inr (ss\<lparr>generated_content := generated_content ss
                 @ map (\<lambda>k. (k, result_of e ss k)) (filter (\<lambda>k. py_truthy (result_of e ss k)) ks)\<rparr>,
           log @ concat (map (events_of e ss) ks))"
  using assms
proof (induction ks arbitrary: ss log)
  case Nil
  then show ?case by simp
next
  case (Cons k ks)
  obtain config where c: "getitem PLATFORM_CONFIG k = Inr config"
    using Cons.prems(1) getitem_known [of k PLATFORM_CONFIG] by auto
  have g: "generate_for_platform e k (session.image_base64 ss) (business_context ss)
      = Inr (result_of e ss k, events_of e ss k)"
    using c by (simp add: result_of_def events_of_def generate_for_platform_def split: outcome.splits)
  let ?ss = "if py_truthy (result_of e ss k)
      then ss\<lparr>generated_content := setitem (generated_content ss) k (result_of e ss k)\<rparr> else ss"
  have fresh: "k \<notin> fst ` set (generated_content ss)"
    using Cons.prems(3) by auto
  have same: "result_of e ?ss = result_of e ss" "events_of e ?ss = events_of e ss"
    using result_of_cong [of ?ss ss e] by simp_all
  have disj: "set ks \<inter> fst ` set (generated_content ?ss) = {}"
    using Cons.prems(2,3) by (auto simp: setitem_fresh [OF fresh])
  have "generate_loop e (k # ks) (ss, log) = generate_loop e ks (?ss, log @ events_of e ss k)"
    by (simp add: c g)
  also have "\<dots> = Inr (?ss\<lparr>generated_content := generated_content ?ss
                 @ map (\<lambda>k. (k, result_of e ss k)) (filter (\<lambda>k. py_truthy (result_of e ss k)) ks)\<rparr>,
           (log @ events_of e ss k) @ concat (map (events_of e ss) ks))"
    using Cons.IH [of ?ss "log @ events_of e ss k"] Cons.prems(1,2) disj same by simp
  finally show ?case
    by (simp add: setitem_fresh [OF fresh])
qed

lemma PLATFORM_CONFIG_keys:
  "map fst PLATFORM_CONFIG = [''instagram'', ''facebook'', ''x'', ''pinterest'', ''linkedin'']"
  by (simp add: PLATFORM_CONFIG_def)

text \<open>
  Claim C9. With \<open>GOOGLE_API_KEY\<close> unset (or empty) the call for a platform of the
  configuration returns \<open>None\<close>, and its only effect is the message of \<open>st.error\<close>
  that names the variable: the log has no call of the external model. The failure is
  told apart from the others by that message alone; the value returned is \<open>None\<close> as
  for every failure.
\<close>

theorem missing_key_fails_before_any_call:
  assumes "key_missing e"
    and "getitem PLATFORM_CONFIG platform_key = Inr config"
  shows "\<exists>log. generate_for_platform e platform_key img ctx = Inr (JNull, log)
    \<and> log = [StError (''Error generating content for '' @ name config
                 @ '': GOOGLE_API_KEY not found in environment variables.'')]
    \<and> model_calls log = 0"
  using assms by (simp add: generate_for_platform_def error_message_def model_calls_def)

theorem missing_key_fails_before_any_call_witness:
  "\<exists>log. generate_for_platform no_key_env ''instagram'' (Some ''aGVsbG8='') [] = Inr (JNull, log)
    \<and> log = [StError ''Error generating content for Instagram: GOOGLE_API_KEY not found in environment variables.'']
    \<and> model_calls log = 0"
proof -
  have k: "key_missing no_key_env"
    by (simp add: key_missing_def no_key_env_def)
  have c: "getitem PLATFORM_CONFIG ''instagram'' = Inr \<lparr>name = ''Instagram'',
      prompt = ''Generate an engaging caption, 15-20 relevant hashtags, and descriptive alt text for an Instagram post.''\<rparr>"
    by (simp add: getitem_def PLATFORM_CONFIG_def)
  show ?thesis
    using missing_key_fails_before_any_call [OF k c, of "Some ''aGVsbG8=''" "[]"] by simp
qed

text \<open>
  Claim C5, as stated, fails: not every call of \<open>generate_for_platform\<close> calls the
  external model once. With the variable set to the empty string the call for the
  platform \<open>x\<close> ends at the check of line 114 and the model is not called at all.
\<close>

theorem no_model_call_without_key:
  "generate_for_platform empty_key_env ''x'' (Some ''aGVsbG8='') []
     = Inr (JNull,
         [StError ''Error generating content for X (Twitter): GOOGLE_API_KEY not found in environment variables.''])
   \<and> model_calls
         [StError ''Error generating content for X (Twitter): GOOGLE_API_KEY not found in environment variables.'']
       = 0"
  by (simp add: generate_for_platform_def empty_key_env_def key_missing_def getitem_def
      PLATFORM_CONFIG_def error_message_def model_calls_def)

text \<open>
  Claim C5, amended. A call of \<open>generate_for_platform\<close> for a platform of the
  configuration calls the external model at most once: exactly once when
  \<open>GOOGLE_API_KEY\<close> is set, whether \<open>invoke\<close> raises, the response fails to parse or
  it parses, and not at all when the variable is missing. Nothing is retried.
\<close>

theorem at_most_one_model_call:
  assumes "getitem PLATFORM_CONFIG platform_key = Inr config"
  shows "\<exists>result log. generate_for_platform e platform_key img ctx = Inr (result, log)
    \<and> model_calls log = (if key_missing e then 0 else 1)"
  using assms
  by (simp add: generate_for_platform_def model_calls_def split: outcome.splits)

theorem at_most_one_model_call_witness:
  "\<exists>result log. generate_for_platform mixed_env ''facebook'' (Some ''aGVsbG8='') [] = Inr (result, log)
    \<and> model_calls log = 1"
proof -
  have c: "getitem PLATFORM_CONFIG ''facebook'' = Inr \<lparr>name = ''Facebook'',
      prompt = ''Create a compelling Facebook post with an optional headline. The tone can be more detailed and community-focused. Ask a question to drive comments.''\<rparr>"
    by (simp add: getitem_def PLATFORM_CONFIG_def)
  have k: "\<not> key_missing mixed_env"
    by (simp add: key_missing_def mixed_env_def)
  show ?thesis
    using at_most_one_model_call [OF c, of mixed_env "Some ''aGVsbG8=''" "[]"] k by simp
qed

text \<open>
  Claim C10, as stated, fails. With every platform selected, the call for LinkedIn
  succeeds: the model is invoked, the parser returns the empty object, nothing is
  shown with \<open>st.error\<close> and the function returns that object. The handler tests
  the result with \<open>if content\<close>, which an empty object fails, and stores nothing for
  LinkedIn: \<open>generated_content\<close> holds Instagram and X only.
\<close>

theorem empty_result_is_not_stored:
  "generate_for_platform mixed_env ''linkedin'' (Some ''aGVsbG8='') []
     = Inr (JObj [], [ModelInvoked ''linkedin''])
   \<and> generate_content_handler mixed_env (select_platforms all_ticked stale_session)
     = Inr (\<lparr>generated_content =
               [(''instagram'', JObj [(''text'', JStr ''Instagram'')]),
                (''x'', JObj [(''text'', JStr ''X (Twitter)'')])],
             image_base64 = Some ''aGVsbG8='',
             platforms_selected = [''instagram'', ''facebook'', ''x'', ''pinterest'', ''linkedin''],
             business_context = [],
             just_generated = True\<rparr>,
            [ModelInvoked ''instagram'',
             ModelInvoked ''facebook'',
             StError ''Error generating content for Facebook: 503 unavailable'',
             ModelInvoked ''x'',
             ModelInvoked ''pinterest'',
             StError ''Error generating content for Pinterest: Invalid json output'',
             ModelInvoked ''linkedin''])"
  by code_simp

text \<open>
  Claim C10, amended. For a platform of the configuration \<open>generate_for_platform\<close>
  returns and raises nothing: a missing key, an exception of \<open>invoke\<close> and an
  exception of \<open>parse\<close> all give \<open>None\<close>, and when the model call and the parser both
  return, the function returns the parsed value. The handler subscripts the
  configuration itself before each call, and the selection is made of keys of the
  configuration, so it never passes another key. After the handler
  \<open>generated_content\<close> holds, in the order of the selection, exactly the selected
  platforms whose call returned a value that the test \<open>if content\<close> takes as true,
  each with its own value: what one platform returned changes no other entry. A value
  that is \<open>None\<close> or empty is not stored, whether it comes from a failure or from a
  parse that succeeded.
\<close>

theorem failures_are_none_and_successes_kept:
  "(getitem PLATFORM_CONFIG k = Inr config
      \<longrightarrow> (\<exists>result log. generate_for_platform e k img ctx = Inr (result, log)))
   \<and> (getitem PLATFORM_CONFIG k = Inr config
        \<and> (key_missing e
           \<or> (\<exists>msg. invoke e \<lparr>req_platform = config, req_context = ctx, req_image = img\<rparr> = Raises msg)
           \<or> (\<exists>text msg. invoke e \<lparr>req_platform = config, req_context = ctx, req_image = img\<rparr>
                  = Returns text \<and> parse e text = Raises msg))
      \<longrightarrow> (\<exists>log. generate_for_platform e k img ctx = Inr (JNull, log)))
   \<and> (getitem PLATFORM_CONFIG k = Inr config \<and> \<not> key_missing e
        \<and> invoke e \<lparr>req_platform = config, req_context = ctx, req_image = img\<rparr> = Returns text
        \<and> parse e text = Returns parsed
      \<longrightarrow> generate_for_platform e k img ctx = Inr (parsed, [ModelInvoked k]))
   \<and> (\<exists>ss' log. generate_content_handler e (select_platforms checkbox ss) = Inr (ss', log)
        \<and> generated_content ss'
          = map (\<lambda>k. (k, result_of e ss k))
              (filter (\<lambda>k. checkbox k \<and> py_truthy (result_of e ss k)) (map fst PLATFORM_CONFIG)))"
proof (intro conjI impI)
  assume "getitem PLATFORM_CONFIG k = Inr config"
  then show "\<exists>result log. generate_for_platform e k img ctx = Inr (result, log)"
    by (simp add: generate_for_platform_def split: outcome.splits)
next
  assume "getitem PLATFORM_CONFIG k = Inr config
        \<and> (key_missing e
           \<or> (\<exists>msg. invoke e \<lparr>req_platform = config, req_context = ctx, req_image = img\<rparr> = Raises msg)
           \<or> (\<exists>text msg. invoke e \<lparr>req_platform = config, req_context = ctx, req_image = img\<rparr>
                  = Returns text \<and> parse e text = Raises msg))"
  then show "\<exists>log. generate_for_platform e k img ctx = Inr (JNull, log)"
    by (auto simp: generate_for_platform_def)
next
  assume "getitem PLATFORM_CONFIG k = Inr config \<and> \<not> key_missing e
        \<and> invoke e \<lparr>req_platform = config, req_context = ctx, req_image = img\<rparr> = Returns text
        \<and> parse e text = Returns parsed"
  then show "generate_for_platform e k img ctx = Inr (parsed, [ModelInvoked k])"
    by (simp add: generate_for_platform_def)
next
  let ?ks = "filter checkbox (map fst PLATFORM_CONFIG)"
  let ?s0 = "(select_platforms checkbox ss)\<lparr>generated_content := []\<rparr>"
  have "generate_loop e ?ks (?s0, [])
      = Inr (?s0\<lparr>generated_content := generated_content ?s0
                 @ map (\<lambda>k. (k, result_of e ?s0 k)) (filter (\<lambda>k. py_truthy (result_of e ?s0 k)) ?ks)\<rparr>,
             [] @ concat (map (events_of e ?s0) ?ks))"
  proof (rule generate_loop_result)
    show "set ?ks \<subseteq> fst ` set PLATFORM_CONFIG"
      by auto
    show "distinct ?ks"
      by (rule distinct_filter) (simp add: PLATFORM_CONFIG_keys)
    show "set ?ks \<inter> fst ` set (generated_content ?s0) = {}"
      by simp
  qed
  then show "\<exists>ss' log. generate_content_handler e (select_platforms checkbox ss) = Inr (ss', log)
        \<and> generated_content ss'
          = map (\<lambda>k. (k, result_of e ss k))
              (filter (\<lambda>k. checkbox k \<and> py_truthy (result_of e ss k)) (map fst PLATFORM_CONFIG))"
    by (simp add: generate_content_handler_def select_platforms_def)
qed

theorem failures_are_none_and_successes_kept_witness:
  "generate_for_platform mixed_env ''x'' (Some ''aGVsbG8='') []
     = Inr (JObj [(''text'', JStr ''X (Twitter)'')], [ModelInvoked ''x''])
   \<and> (\<exists>log. generate_for_platform mixed_env ''facebook'' (Some ''aGVsbG8='') [] = Inr (JNull, log))
   \<and> (\<exists>ss' log. generate_content_handler mixed_env (select_platforms all_ticked stale_session)
          = Inr (ss', log)
        \<and> generated_content ss'
          = [(''instagram'', JObj [(''text'', JStr ''Instagram'')]),
             (''x'', JObj [(''text'', JStr ''X (Twitter)'')])])"
proof -
  let ?x = "\<lparr>name = ''X (Twitter)'',
      prompt = ''Write a short, punchy tweet (under 280 characters) with 2-3 key hashtags.''\<rparr>"
  let ?facebook = "\<lparr>name = ''Facebook'',
      prompt = ''Create a compelling Facebook post with an optional headline. The tone can be more detailed and community-focused. Ask a question to drive comments.''\<rparr>"
  have c: "getitem PLATFORM_CONFIG ''x'' = Inr ?x"
      "getitem PLATFORM_CONFIG ''facebook'' = Inr ?facebook"
    by (simp_all add: PLATFORM_CONFIG_def getitem_def)
  have k: "\<not> key_missing mixed_env"
    by (simp add: key_missing_def mixed_env_def)
  have i: "invoke mixed_env \<lparr>req_platform = ?x, req_context = [], req_image = Some ''aGVsbG8=''\<rparr>
        = Returns ''X (Twitter)''"
      "parse mixed_env ''X (Twitter)'' = Returns (JObj [(''text'', JStr ''X (Twitter)'')])"
      "invoke mixed_env \<lparr>req_platform = ?facebook, req_context = [], req_image = Some ''aGVsbG8=''\<rparr>
        = Raises ''503 unavailable''"
    by (simp_all add: mixed_env_def)
  have success: "generate_for_platform mixed_env ''x'' (Some ''aGVsbG8='') []
      = Inr (JObj [(''text'', JStr ''X (Twitter)'')], [ModelInvoked ''x''])"
    using failures_are_none_and_successes_kept
      [of "''x''" ?x mixed_env "Some ''aGVsbG8=''" "[]" "''X (Twitter)''"
          "JObj [(''text'', JStr ''X (Twitter)'')]" all_ticked stale_session]
      c(1) k i(1,2)
    by blast
  have failure: "\<exists>log. generate_for_platform mixed_env ''facebook'' (Some ''aGVsbG8='') []
      = Inr (JNull, log)"
    using failures_are_none_and_successes_kept
      [of "''facebook''" ?facebook mixed_env "Some ''aGVsbG8=''" "[]" "[]" JNull
          all_ticked stale_session]
      c(2) i(3)
    by blast
  have "map (\<lambda>k. (k, result_of mixed_env stale_session k))
          (filter (\<lambda>k. all_ticked k \<and> py_truthy (result_of mixed_env stale_session k))
             (map fst PLATFORM_CONFIG))
      = [(''instagram'', JObj [(''text'', JStr ''Instagram'')]),
         (''x'', JObj [(''text'', JStr ''X (Twitter)'')])]"
    by code_simp
  then have kept: "\<exists>ss' log.
      generate_content_handler mixed_env (select_platforms all_ticked stale_session) = Inr (ss', log)
      \<and> generated_content ss'
        = [(''instagram'', JObj [(''text'', JStr ''Instagram'')]),
           (''x'', JObj [(''text'', JStr ''X (Twitter)'')])]"
    using failures_are_none_and_successes_kept
      [of "[]" undefined mixed_env None "[]" "[]" JNull all_ticked stale_session]
    by simp
  show ?thesis
    by (intro conjI) (rule success, rule failure, rule kept)
qed

section \<open>What the nodes leave unchanged\<close>

lemma validate_content_node_keeps:
  assumes "validate_content_node s = Inr s2"
  shows "retry_count s2 = retry_count s" and "max_retries s2 = max_retries s"
    and "error_history s2 = error_history s" and "analysis s2 = analysis s"
    and "social_content s2 = social_content s"
  using assms
  by (auto simp: validate_content_node_def split: option.splits if_splits sum.splits)

text \<open>Whether the validator node raises depends on the candidate only.\<close>

lemma validate_content_node_raises_by_content:
  "social_content s' = social_content s
    \<Longrightarrow> isl (validate_content_node s') = isl (validate_content_node s)"
  by (simp add: validate_content_node_def split: option.splits sum.splits)

lemma create_social_content_node_keeps:
  assumes "create_social_content_node call s = Inr s1"
  shows "retry_count s1 = retry_count s" and "max_retries s1 = max_retries s"
    and "analysis s1 = analysis s"
  using assms
  by (auto simp: create_social_content_node_def split: option.splits outcome.splits)

lemma should_continue_Retry:
  assumes "should_continue s = Inr (Retry, shown)"
  shows "\<exists>r m. retry_count s = Some r \<and> max_retries s = Some m \<and> r < m"
  using assms
  by (simp add: should_continue_def split: if_splits option.splits)

lemma increment_retry_node_Inr:
  assumes "increment_retry_node s = Inr s3" and "retry_count s = Some r"
  shows "retry_count s3 = Some (r + 1)" and "max_retries s3 = max_retries s"
    and "analysis s3 = analysis s" and "error_history s3 = error_history s"
    and "social_content s3 = social_content s"
  using assms by (auto simp: increment_retry_node_def)

section \<open>Results on the retry workflow\<close>

lemma validator_failed_iff:
  assumes "comprehensive_content_validator c = Inr f"
  shows "py_in ''Failed'' f \<longleftrightarrow> (\<exists>issues. validator_issues c = Inr issues \<and> issues \<noteq> [])"
proof -
  obtain issues where i: "validator_issues c = Inr issues"
    using assms by (auto simp: comprehensive_content_validator_def split: sum.splits)
  show ?thesis
  proof (cases issues)
    case Nil
    then show ?thesis
      using assms i by (auto simp: comprehensive_content_validator_def)
  next
    case (Cons x xs)
    then have "f = failed_header @ (issue_sep @ py_join issue_sep (x # xs))"
      using assms i by (auto simp: comprehensive_content_validator_def)
    then show ?thesis
      using Cons i py_in_failed_header by simp
  qed
qed

lemma retry_step:
  assumes "create_social_content_node call s = Inr s1"
    and "validate_content_node s1 = Inr s2"
    and "should_continue s2 = Inr (Retry, shown)"
    and "increment_retry_node s2 = Inr s3"
  shows "\<exists>r m. retry_count s = Some r \<and> max_retries s = Some m \<and> r < m
      \<and> retry_count s3 = Some (r + 1) \<and> max_retries s3 = Some m"
    and "analysis s3 = analysis s"
    and "social_content s3 = social_content s1"
proof -
  obtain r m where rm: "retry_count s2 = Some r" "max_retries s2 = Some m" "r < m"
    using should_continue_Retry [OF assms(3)] by blast
  have "retry_count s = Some r" "max_retries s = Some m"
    using rm validate_content_node_keeps(1,2) [OF assms(2)]
      create_social_content_node_keeps(1,2) [OF assms(1)] by simp_all
  moreover have "retry_count s3 = Some (r + 1)" "max_retries s3 = Some m"
    using increment_retry_node_Inr [OF assms(4) rm(1)] rm by simp_all
  ultimately show "\<exists>r m. retry_count s = Some r \<and> max_retries s = Some m \<and> r < m
      \<and> retry_count s3 = Some (r + 1) \<and> max_retries s3 = Some m"
    using rm(3) by simp
  show "analysis s3 = analysis s"
    using increment_retry_node_Inr(3) [OF assms(4) rm(1)]
      validate_content_node_keeps(4) [OF assms(2)]
      create_social_content_node_keeps(3) [OF assms(1)] by simp
  show "social_content s3 = social_content s1"
    using increment_retry_node_Inr(5) [OF assms(4) rm(1)]
      validate_content_node_keeps(5) [OF assms(2)] by simp
qed

lemma retry_step_budget:
  assumes "create_social_content_node call s = Inr s1"
    and "validate_content_node s1 = Inr s2"
    and "should_continue s2 = Inr (Retry, shown)"
    and "increment_retry_node s2 = Inr s3"
  shows "budget_left s3 < budget_left s"
  using retry_step(1) [OF assms] by (auto simp: budget_left_def)

text \<open>One unfolding of the cycle, by what the nodes and the router return.\<close>

lemma content_loop_raises:
  "create_social_content_node (gen n) s = Inl e \<Longrightarrow> content_loop gen s n = (Inl e, n)"
  by (subst content_loop.simps) simp

lemma content_loop_validator_raises:
  "create_social_content_node (gen n) s = Inr s1
    \<Longrightarrow> validate_content_node s1 = Inl e
    \<Longrightarrow> content_loop gen s n = (Inl e, Suc n)"
  by (subst content_loop.simps) simp

lemma content_loop_router_raises:
  "create_social_content_node (gen n) s = Inr s1
    \<Longrightarrow> validate_content_node s1 = Inr s2
    \<Longrightarrow> should_continue s2 = Inl e
    \<Longrightarrow> content_loop gen s n = (Inl e, Suc n)"
  by (subst content_loop.simps) simp

lemma content_loop_end:
  "create_social_content_node (gen n) s = Inr s1
    \<Longrightarrow> validate_content_node s1 = Inr s2
    \<Longrightarrow> should_continue s2 = Inr (End, shown)
    \<Longrightarrow> content_loop gen s n = (Inr (s2, shown), Suc n)"
  by (subst content_loop.simps) simp

lemma content_loop_counter_raises:
  "create_social_content_node (gen n) s = Inr s1
    \<Longrightarrow> validate_content_node s1 = Inr s2
    \<Longrightarrow> should_continue s2 = Inr (Retry, shown)
    \<Longrightarrow> increment_retry_node s2 = Inl e
    \<Longrightarrow> content_loop gen s n = (Inl e, Suc n)"
  by (subst content_loop.simps) simp

lemma content_loop_retry:
  "create_social_content_node (gen n) s = Inr s1
    \<Longrightarrow> validate_content_node s1 = Inr s2
    \<Longrightarrow> should_continue s2 = Inr (Retry, shown)
    \<Longrightarrow> increment_retry_node s2 = Inr s3
    \<Longrightarrow> content_loop gen s n = content_loop gen s3 (Suc n)"
  by (subst content_loop.simps) simp

text \<open>The six ways a turn of the cycle can go.\<close>

lemma content_loop_cases:
  obtains (raises) e where "create_social_content_node (gen n) s = Inl e"
      "content_loop gen s n = (Inl e, n)"
  | (validator_raises) s1 e where "create_social_content_node (gen n) s = Inr s1"
      "validate_content_node s1 = Inl e"
      "content_loop gen s n = (Inl e, Suc n)"
  | (router_raises) s1 s2 e where "create_social_content_node (gen n) s = Inr s1"
      "validate_content_node s1 = Inr s2"
      "should_continue s2 = Inl e"
      "content_loop gen s n = (Inl e, Suc n)"
  | (ends) s1 s2 shown where "create_social_content_node (gen n) s = Inr s1"
      "validate_content_node s1 = Inr s2"
      "should_continue s2 = Inr (End, shown)"
      "content_loop gen s n = (Inr (s2, shown), Suc n)"
  | (counter_raises) s1 s2 shown e where "create_social_content_node (gen n) s = Inr s1"
      "validate_content_node s1 = Inr s2"
      "should_continue s2 = Inr (Retry, shown)"
      "increment_retry_node s2 = Inl e"
      "content_loop gen s n = (Inl e, Suc n)"
  | (retries) s1 s2 shown s3 where "create_social_content_node (gen n) s = Inr s1"
      "validate_content_node s1 = Inr s2"
      "should_continue s2 = Inr (Retry, shown)"
      "increment_retry_node s2 = Inr s3"
      "content_loop gen s n = content_loop gen s3 (Suc n)"
proof (cases "create_social_content_node (gen n) s")
  case (Inl e)
  then show ?thesis using raises content_loop_raises by blast
next
  case c: (Inr s1)
  show ?thesis
  proof (cases "validate_content_node s1")
    case (Inl e)
    then show ?thesis using validator_raises c content_loop_validator_raises by blast
  next
    case v: (Inr s2)
    show ?thesis
    proof (cases "should_continue s2")
      case (Inl e)
      then show ?thesis using router_raises c v content_loop_router_raises by blast
    next
      case (Inr rs)
      obtain r shown where rs: "rs = (r, shown)" by (cases rs)
      show ?thesis
      proof (cases r)
        case End
        then show ?thesis using ends c v Inr rs content_loop_end by blast
      next
        case Retry
        show ?thesis
        proof (cases "increment_retry_node s2")
          case (Inl e)
          then show ?thesis
            using counter_raises c v Inr rs Retry content_loop_counter_raises by blast
        next
          case i: (Inr s3)
          then show ?thesis
            using retries c v Inr rs Retry content_loop_retry by blast
        qed
      qed
    qed
  qed
qed

lemma content_loop_calls_bound:
  "snd (content_loop gen s n) \<le> n + budget_left s + 1"
proof (induction "budget_left s" arbitrary: s n rule: less_induct)
  case less
  show ?case
  proof (cases rule: content_loop_cases [of gen n s])
    case (retries s1 s2 shown s3)
    have "budget_left s3 < budget_left s"
      using retry_step_budget retries by blast
    then show ?thesis
      using less [of s3 "Suc n"] retries(5) by simp
  qed simp_all
qed

lemma should_continue_hard_failure:
  "error_history s = Some h \<Longrightarrow> h \<noteq> [] \<Longrightarrow> should_continue s = Inr (End, None)"
  by (simp add: should_continue_def)

text \<open>
  A generation call that raises, in a state whose candidate, if it has one, went
  through the validator without an exception.
\<close>

lemma raising_call_ends_the_loop:
  assumes "gen n = Raises e" and "analysis s = Some a" and "\<not> isl (validate_content_node s)"
  shows "\<exists>s'. content_loop gen s n = (Inr (s', None), Suc n)
    \<and> error_history s' = Some [''Content Generation Failed: '' @ e]"
proof -
  let ?s1 = "s\<lparr>error_history := Some [''Content Generation Failed: '' @ e]\<rparr>"
  have c: "create_social_content_node (gen n) s = Inr ?s1"
    using assms by (simp add: create_social_content_node_def)
  have "\<not> isl (validate_content_node ?s1)"
    using assms(3) validate_content_node_raises_by_content [of ?s1 s] by simp
  then obtain s2 where v: "validate_content_node ?s1 = Inr s2"
    by (cases "validate_content_node ?s1") simp_all
  have h: "error_history s2 = Some [''Content Generation Failed: '' @ e]"
    using validate_content_node_keeps(3) [OF v] by simp
  then have "should_continue s2 = Inr (End, None)"
    by (rule should_continue_hard_failure) simp
  then show ?thesis
    using c v h content_loop_end by blast
qed

lemma call_needs_analysis:
  assumes "n < snd (content_loop gen s n)"
  shows "\<exists>a. analysis s = Some a"
proof (cases "analysis s")
  case None
  then have "create_social_content_node (gen n) s = Inl (KeyError ''analysis'')"
    by (simp add: create_social_content_node_def)
  then show ?thesis
    using assms content_loop_raises [of gen n s] by simp
qed simp

lemma raise_is_last_call:
  assumes "n \<le> k" and "k < snd (content_loop gen s n)" and "gen k = Raises e"
    and "\<not> isl (validate_content_node s)"
  shows "snd (content_loop gen s n) = Suc k
    \<and> (\<exists>s'. fst (content_loop gen s n) = Inr (s', None)
          \<and> error_history s' = Some [''Content Generation Failed: '' @ e])"
  using assms
proof (induction "budget_left s" arbitrary: s n rule: less_induct)
  case less
  show ?case
  proof (cases "k = n")
    case True
    obtain a where "analysis s = Some a"
      using call_needs_analysis [of n gen s] less.prems(2) True by auto
    then show ?thesis
      using raising_call_ends_the_loop [of gen n e s a] less.prems(3,4) True by auto
  next
    case False
    then have k: "Suc n \<le> k"
      using less.prems(1) by simp
    show ?thesis
    proof (cases rule: content_loop_cases [of gen n s])
      case (retries s1 s2 shown s3)
      have "budget_left s3 < budget_left s"
        using retry_step_budget retries by blast
      moreover have "\<not> isl (validate_content_node s3)"
        using validate_content_node_raises_by_content [of s3 s1]
          retry_step(3) [OF retries(1-4)] retries(2) by simp
      ultimately show ?thesis
        using less.hyps [of s3 "Suc n"] k less.prems(2,3) retries(5) by simp
    qed (use k less.prems(2) in simp_all)
  qed
qed

lemma calls_before_last_return:
  assumes "n \<le> k" and "Suc k < snd (content_loop gen s n)"
    and "\<not> isl (validate_content_node s)"
  shows "\<exists>c. gen k = Returns c"
proof (cases "gen k")
  case (Raises e)
  then show ?thesis
    using raise_is_last_call [of n k gen s e] assms by simp
qed simp

text \<open>A run in which every attempt returns a candidate that fails the validation.\<close>

lemma failing_attempt_feedback:
  assumes "\<not> py_truthy c \<or> (\<exists>issues. validator_issues c = Inr issues \<and> issues \<noteq> [])"
  shows "\<exists>f. validate_content_node (s\<lparr>social_content := Some c\<rparr>)
      = Inr (s\<lparr>social_content := Some c, validation_feedback := Some f\<rparr>)
    \<and> py_in ''Failed'' f"
proof (cases "py_truthy c")
  case False
  have "validate_content_node (s\<lparr>social_content := Some c\<rparr>)
        = Inr (s\<lparr>social_content := Some c,
                 validation_feedback := Some ''Validation Failed: No content was generated.''\<rparr>)"
    using False by (simp add: validate_content_node_def)
  moreover have "py_in ''Failed'' ''Validation Failed: No content was generated.''"
    by simp
  ultimately show ?thesis
    by blast
next
  case True
  then obtain issues where i: "validator_issues c = Inr issues" "issues \<noteq> []"
    using assms by blast
  then obtain f where f: "comprehensive_content_validator c = Inr f"
    by (simp add: comprehensive_content_validator_def)
  then have "py_in ''Failed'' f"
    using validator_failed_iff [OF f] i by simp
  moreover have "validate_content_node (s\<lparr>social_content := Some c\<rparr>)
        = Inr (s\<lparr>social_content := Some c, validation_feedback := Some f\<rparr>)"
    using True f by (simp add: validate_content_node_def)
  ultimately show ?thesis
    by blast
qed

lemma never_valid_run:
  assumes gen: "\<And>k. gen k = Returns (c k)"
    and bad: "\<And>k. \<not> py_truthy (c k) \<or> (\<exists>issues. validator_issues (c k) = Inr issues \<and> issues \<noteq> [])"
    and s: "analysis s = Some a" "retry_count s = Some r" "max_retries s = Some m"
      "error_history s = None"
  shows "\<exists>s'. content_loop gen s n = (Inr (s', Some MaxRetriesWarning), n + nat (m - r) + 1)
    \<and> social_content s' = Some (c (n + nat (m - r)))
    \<and> retry_count s' = Some (max r m)"
  using s
proof (induction "nat (m - r)" arbitrary: s n r)
  case 0
  let ?s1 = "s\<lparr>social_content := Some (c n)\<rparr>"
  have cr: "create_social_content_node (gen n) s = Inr ?s1"
    using gen "0.prems"(1) by (simp add: create_social_content_node_def)
  obtain f where f: "validate_content_node ?s1
        = Inr (s\<lparr>social_content := Some (c n), validation_feedback := Some f\<rparr>)"
      "py_in ''Failed'' f"
    using failing_attempt_feedback [OF bad] by blast
  let ?s2 = "s\<lparr>social_content := Some (c n), validation_feedback := Some f\<rparr>"
  have "m \<le> r"
    using "0.hyps" by simp
  then have "should_continue ?s2 = Inr (End, Some MaxRetriesWarning)"
    using f "0.prems" by (simp add: should_continue_def)
  then have "content_loop gen s n = (Inr (?s2, Some MaxRetriesWarning), Suc n)"
    using cr f(1) content_loop_end by blast
  then show ?case
    using "0.hyps" "0.prems" \<open>m \<le> r\<close> by (simp add: max_def)
next
  case (Suc d)
  let ?s1 = "s\<lparr>social_content := Some (c n)\<rparr>"
  have cr: "create_social_content_node (gen n) s = Inr ?s1"
    using gen Suc.prems(1) by (simp add: create_social_content_node_def)
  obtain f where f: "validate_content_node ?s1
        = Inr (s\<lparr>social_content := Some (c n), validation_feedback := Some f\<rparr>)"
      "py_in ''Failed'' f"
    using failing_attempt_feedback [OF bad] by blast
  let ?s2 = "s\<lparr>social_content := Some (c n), validation_feedback := Some f\<rparr>"
  let ?s3 = "?s2\<lparr>retry_count := Some (r + 1)\<rparr>"
  have rm: "r < m"
    using Suc.hyps(2) by simp
  then have sc: "should_continue ?s2 = Inr (Retry, None)"
    using f Suc.prems by (simp add: should_continue_def)
  have inc: "increment_retry_node ?s2 = Inr ?s3"
    using Suc.prems by (simp add: increment_retry_node_def)
  have step: "content_loop gen s n = content_loop gen ?s3 (Suc n)"
    using cr f(1) sc inc content_loop_retry by blast
  have d: "d = nat (m - (r + 1))"
    using Suc.hyps(2) by simp
  have "\<exists>s'. content_loop gen ?s3 (Suc n)
        = (Inr (s', Some MaxRetriesWarning), Suc n + nat (m - (r + 1)) + 1)
      \<and> social_content s' = Some (c (Suc n + nat (m - (r + 1))))
      \<and> retry_count s' = Some (max (r + 1) m)"
    by (rule Suc.hyps(1) [OF d]) (use Suc.prems in simp_all)
  then obtain s' where s': "content_loop gen ?s3 (Suc n)
        = (Inr (s', Some MaxRetriesWarning), Suc n + nat (m - (r + 1)) + 1)"
      "social_content s' = Some (c (Suc n + nat (m - (r + 1))))"
      "retry_count s' = Some (max (r + 1) m)"
    by blast
  have e: "Suc n + nat (m - (r + 1)) = n + nat (m - r)" "max (r + 1) m = max r m"
    using rm by simp_all
  show ?case
    using s' step unfolding e by auto
qed

lemma app_invoke_after_analysis:
  "analysis_call w = Returns a
    \<Longrightarrow> app_invoke w (graph_inputs img m)
      = content_loop (generation_call w)
          ((graph_inputs img m)\<lparr>analysis := Some a, retry_count := Some 0\<rparr>) 0"
  by (simp add: app_invoke_def analyze_image_node_def graph_inputs_def)

lemma app_invoke_failed_analysis:
  "analysis_call w = Raises e
    \<Longrightarrow> app_invoke w (graph_inputs img m) = (Inl (KeyError ''analysis''), 0)"
  by (simp add: app_invoke_def analyze_image_node_def graph_inputs_def content_loop_raises
      create_social_content_node_def)

lemma first_state_validates:
  "\<not> isl (validate_content_node ((graph_inputs img m)\<lparr>analysis := Some a, retry_count := Some 0\<rparr>))"
  by (simp add: validate_content_node_def graph_inputs_def)

text \<open>
  Claim C1, as stated, fails. With a budget of 2 and attempts 0 and 1 (and every later
  one) failing the validation, the run does not stop after attempt 1: the router
  compares \<open>retry_count\<close>, which counts the retries made so far, with \<open>max_retries\<close>,
  so that attempt 2 is made as well. The run makes three generation calls, more than
  the budget.
\<close>

theorem budget_two_makes_three_calls:
  "validator_issues (numbered_candidate 0)
     = Inr [''A required field is missing from the AI's response: 'alt_text'' @ [CHR 0x27]]
   \<and> validator_issues (numbered_candidate 1)
     = Inr [''A required field is missing from the AI's response: 'alt_text'' @ [CHR 0x27]]
   \<and> snd (app_invoke never_valid_world (graph_inputs ''aGVsbG8='' 2)) = 3"
  by code_simp

text \<open>
  Claim C1, amended. The budget of the source is a number of retries: a run makes at
  most \<open>max_retries + 1\<close> generation calls (one call when the budget is negative). If
  every attempt returns a candidate that fails the validation, the run makes exactly
  \<open>max_retries + 1\<close> calls: it stops after attempt number \<open>max_retries\<close> with the
  warning that the retries are used up, and the state holds the candidate of that
  last attempt.
\<close>

theorem calls_bounded_by_retries_plus_one:
  "snd (app_invoke w (graph_inputs img m)) \<le> nat m + 1
   \<and> (analysis_call w = Returns a
        \<and> (\<forall>k. generation_call w k = Returns (c k)
               \<and> (\<not> py_truthy (c k)
                  \<or> (\<exists>issues. validator_issues (c k) = Inr issues \<and> issues \<noteq> [])))
        \<and> 0 \<le> m
      \<longrightarrow> (\<exists>s'. app_invoke w (graph_inputs img m)
                 = (Inr (s', Some MaxRetriesWarning), nat m + 1)
              \<and> social_content s' = Some (c (nat m))
              \<and> retry_count s' = Some m))"
proof (intro conjI impI)
  show "snd (app_invoke w (graph_inputs img m)) \<le> nat m + 1"
  proof (cases "analysis_call w")
    case (Raises e)
    then show ?thesis
      by (simp add: app_invoke_failed_analysis)
  next
    case (Returns a)
    let ?s = "(graph_inputs img m)\<lparr>analysis := Some a, retry_count := Some 0\<rparr>"
    have "budget_left ?s = nat m"
      by (simp add: budget_left_def graph_inputs_def)
    then show ?thesis
      using content_loop_calls_bound [of "generation_call w" ?s 0]
      by (simp add: app_invoke_after_analysis [OF Returns])
  qed
next
  assume h: "analysis_call w = Returns a
        \<and> (\<forall>k. generation_call w k = Returns (c k)
               \<and> (\<not> py_truthy (c k)
                  \<or> (\<exists>issues. validator_issues (c k) = Inr issues \<and> issues \<noteq> [])))
        \<and> 0 \<le> m"
  let ?s = "(graph_inputs img m)\<lparr>analysis := Some a, retry_count := Some 0\<rparr>"
  have "\<exists>s'. content_loop (generation_call w) ?s 0
        = (Inr (s', Some MaxRetriesWarning), 0 + nat (m - 0) + 1)
      \<and> social_content s' = Some (c (0 + nat (m - 0)))
      \<and> retry_count s' = Some (max 0 m)"
    by (rule never_valid_run [where a = a]) (use h in \<open>simp_all add: graph_inputs_def\<close>)
  then show "\<exists>s'. app_invoke w (graph_inputs img m)
                 = (Inr (s', Some MaxRetriesWarning), nat m + 1)
              \<and> social_content s' = Some (c (nat m))
              \<and> retry_count s' = Some m"
    using h by (simp add: app_invoke_after_analysis max_def)
qed

theorem calls_bounded_by_retries_plus_one_witness:
  "\<exists>s'. app_invoke never_valid_world (graph_inputs ''aGVsbG8='' 2)
       = (Inr (s', Some MaxRetriesWarning), 3)
     \<and> social_content s' = Some (JObj [(''instagram'', JObj [(''caption'', JStr ''2'')])])
     \<and> retry_count s' = Some 2"
proof -
  have a: "analysis_call never_valid_world = Returns sunset_analysis"
    by (simp add: never_valid_world_def)
  have v: "\<exists>issues. validator_issues (numbered_candidate k) = Inr issues \<and> issues \<noteq> []" for k
    by (simp add: numbered_candidate_def validator_defs getitem_def check_caption_def)
  have g: "\<forall>k. generation_call never_valid_world k = Returns (numbered_candidate k)
        \<and> (\<not> py_truthy (numbered_candidate k)
           \<or> (\<exists>issues. validator_issues (numbered_candidate k) = Inr issues \<and> issues \<noteq> []))"
    using v by (simp add: never_valid_world_def)
  have n: "numbered_candidate (nat 2) = JObj [(''instagram'', JObj [(''caption'', JStr ''2'')])]"
    by code_simp
  show ?thesis
    using calls_bounded_by_retries_plus_one
      [of never_valid_world "''aGVsbG8=''" 2 sunset_analysis numbered_candidate] a g n
    by simp
qed

text \<open>
  A generation call that fails. The router ends the run on a state whose
  \<open>error_history\<close> is not empty, whatever the feedback and the counters say. In a run
  from the inputs of the handler, a generation call that raises is the last
  generation call: every call before the last one returned a candidate, and after a
  call that raised the run ends at the router, without an exception, with the failure
  as the one entry of \<open>error_history\<close>.
\<close>

lemma generation_failure_stops_the_run:
  "(error_history s = Some h \<and> h \<noteq> [] \<longrightarrow> should_continue s = Inr (End, None))
   \<and> (Suc k < snd (app_invoke w (graph_inputs img m))
        \<longrightarrow> (\<exists>c. generation_call w k = Returns c))
   \<and> (k < snd (app_invoke w (graph_inputs img m)) \<and> generation_call w k = Raises e
        \<longrightarrow> snd (app_invoke w (graph_inputs img m)) = Suc k
          \<and> (\<exists>s'. fst (app_invoke w (graph_inputs img m)) = Inr (s', None)
                \<and> error_history s' = Some [''Content Generation Failed: '' @ e]))"
proof -
  have router: "error_history s = Some h \<and> h \<noteq> [] \<longrightarrow> should_continue s = Inr (End, None)"
    using should_continue_hard_failure by blast
  have before: "Suc k < snd (app_invoke w (graph_inputs img m))
      \<longrightarrow> (\<exists>c. generation_call w k = Returns c)"
  proof (cases "analysis_call w")
    case (Raises e)
    then show ?thesis
      by (simp add: app_invoke_failed_analysis)
  next
    case (Returns a)
    then show ?thesis
      using calls_before_last_return [of 0 k "generation_call w", OF _ _ first_state_validates]
      by (simp add: app_invoke_after_analysis)
  qed
  have last: "k < snd (app_invoke w (graph_inputs img m)) \<and> generation_call w k = Raises e
      \<longrightarrow> snd (app_invoke w (graph_inputs img m)) = Suc k
        \<and> (\<exists>s'. fst (app_invoke w (graph_inputs img m)) = Inr (s', None)
              \<and> error_history s' = Some [''Content Generation Failed: '' @ e])"
  proof (cases "analysis_call w")
    case (Raises e')
    then show ?thesis
      by (simp add: app_invoke_failed_analysis)
  next
    case (Returns a)
    then show ?thesis
      using raise_is_last_call [of 0 k "generation_call w" _ e, OF _ _ _ first_state_validates]
      by (simp add: app_invoke_after_analysis)
  qed
  show ?thesis
    by (intro conjI) (rule router, rule before, rule last)
qed

text \<open>With a budget of 5, a second call that fails on its quota is the last call.\<close>

lemma quota_failure_stops_the_run:
  "snd (app_invoke quota_world (graph_inputs ''aGVsbG8='' 5)) = 2
   \<and> (\<exists>s'. fst (app_invoke quota_world (graph_inputs ''aGVsbG8='' 5)) = Inr (s', None)
         \<and> error_history s' = Some [''Content Generation Failed: 429 quota exceeded''])"
proof -
  have n: "(1::nat) < snd (app_invoke quota_world (graph_inputs ''aGVsbG8='' 5))"
    by code_simp
  have g: "generation_call quota_world 1 = Raises ''429 quota exceeded''"
    by (simp add: quota_world_def)
  show ?thesis
    using generation_failure_stops_the_run
      [of undefined "[]" 1 quota_world "''aGVsbG8=''" 5 "''429 quota exceeded''"] n g
    by simp
qed

text \<open>
  Claim C2. The claim holds of a generation call that fails, as shown above, and the
  code misses it for a failure of the image analysis. The analyzer records that
  failure in \<open>error_history\<close>, as the content node does with its own, and the router
  would end the run on the state the analyzer returns. But the edge from the analyzer
  leads to the content node whatever the analyzer returned (line 442), and the
  content node reads \<open>state['analysis']\<close>, which was never written, before its \<open>try\<close>
  (line 380). With the inputs of the handler and an analysis call that raises, the
  run ends with \<open>KeyError('analysis')\<close> and not at the end state: no generation call
  is made, no final state holds the error history, and the display of
  \<open>error_history\<close> in the handler (lines 530 to 532) is not reached.
\<close>

theorem failed_analysis_ends_in_key_error:
  "analyze_image_node (analysis_call failed_analysis_world) (graph_inputs ''aGVsbG8='' 2)
     = Inr ((graph_inputs ''aGVsbG8='' 2)
              \<lparr>error_history := Some [''Image Analysis Failed: 503 unavailable'']\<rparr>)
   \<and> should_continue
       ((graph_inputs ''aGVsbG8='' 2)
          \<lparr>error_history := Some [''Image Analysis Failed: 503 unavailable'']\<rparr>)
     = Inr (End, None)
   \<and> create_social_content_node (generation_call failed_analysis_world 0)
       ((graph_inputs ''aGVsbG8='' 2)
          \<lparr>error_history := Some [''Image Analysis Failed: 503 unavailable'']\<rparr>)
     = Inl (KeyError ''analysis'')
   \<and> app_invoke failed_analysis_world (graph_inputs ''aGVsbG8='' 2)
     = (Inl (KeyError ''analysis''), 0)"
  by (simp add: app_invoke_def failed_analysis_world_def analyze_image_node_def graph_inputs_def
      should_continue_def create_social_content_node_def content_loop_raises)

end
